theory Spec2Isabelle
  imports Complex_Main "HOL-Library.Sublist" "HOL-Library.AList"
begin

section \<open>Wind-down protocol (scripts/wind_down.py)\<close>

text \<open>
  A shallow embedding of wind_down.py. Python values that come out of JSON files, out of
  the sanity tool's output or out of the extension hook are values of \<open>pyval\<close>; a dict
  is an association list in insertion order with string keys. An exception is a value
  \<open>Exn c m\<close> (class and message); a function that can raise returns \<open>exn + 'a\<close>.
  What the operating system, the file system, the subprocesses, the clock and the
  extension module answer is read from an environment record; what the program does to
  the outside (calls of the collectors, lines printed, files written) is returned as a
  list of effects in program order.
\<close>

subsection \<open>Exceptions\<close>

datatype exn_class =
    OSError | FileNotFoundError | ValueError | JSONDecodeError | UnicodeDecodeError
  | TypeError | AttributeError | KeyError | ImportError | TimeoutExpired | RuntimeError
  | KeyboardInterrupt | SystemExit

datatype exn = Exn exn_class string

fun exn_class_of :: "exn \<Rightarrow> exn_class" where
  "exn_class_of (Exn c m) = c"

fun exn_str :: "exn \<Rightarrow> string" where
  "exn_str (Exn c m) = m"

text \<open>The part of Python's class hierarchy the handlers of the script look at.\<close>

fun issubclass :: "exn_class \<Rightarrow> exn_class \<Rightarrow> bool" where
  "issubclass FileNotFoundError OSError = True"
| "issubclass JSONDecodeError ValueError = True"
| "issubclass UnicodeDecodeError ValueError = True"
| "issubclass c d = (c = d)"

text \<open>\<open>except Exception\<close>: everything but KeyboardInterrupt and SystemExit.\<close>

definition is_Exception :: "exn \<Rightarrow> bool" where
  "is_Exception e = (exn_class_of e \<noteq> KeyboardInterrupt \<and> exn_class_of e \<noteq> SystemExit)"

text \<open>\<open>except (C1, C2, ...)\<close> catches \<open>e\<close>.\<close>

definition catches :: "exn_class list \<Rightarrow> exn \<Rightarrow> bool" where
  "catches cs e = list_ex (issubclass (exn_class_of e)) cs"

subsection \<open>Python values\<close>

datatype pyval =
    PNone
  | PBool bool
  | PInt int
  | PFloat int int
  | PStr string
  | PList "pyval list"
  | PDict "(string \<times> pyval) list"

text \<open>\<open>PFloat m e\<close> is the finite float \<open>m * 2 ^ e\<close>; only its truth value is used.\<close>

type_synonym pydict = "(string \<times> pyval) list"

fun truthy :: "pyval \<Rightarrow> bool" where
  "truthy PNone = False"
| "truthy (PBool b) = b"
| "truthy (PInt i) = (i \<noteq> 0)"
| "truthy (PFloat m e) = (m \<noteq> 0)"
| "truthy (PStr s) = (s \<noteq> [])"
| "truthy (PList xs) = (xs \<noteq> [])"
| "truthy (PDict kvs) = (kvs \<noteq> [])"

text \<open>\<open>d.get(k, dflt)\<close> on a dict, \<open>d[k]\<close>, and \<open>d[k] = v\<close>.\<close>

definition dict_get :: "pydict \<Rightarrow> string \<Rightarrow> pyval \<Rightarrow> pyval" where
  "dict_get d k dflt = (case map_of d k of None \<Rightarrow> dflt | Some v \<Rightarrow> v)"

definition dict_item :: "pydict \<Rightarrow> string \<Rightarrow> exn + pyval" where
  "dict_item d k = (case map_of d k of None \<Rightarrow> Inl (Exn KeyError k) | Some v \<Rightarrow> Inr v)"

definition dict_set :: "pydict \<Rightarrow> string \<Rightarrow> pyval \<Rightarrow> pydict" where
  "dict_set d k v = AList.update k v d"

text \<open>\<open>v.get(k, dflt)\<close> on any value: only a dict has the method.\<close>

fun py_get :: "pyval \<Rightarrow> string \<Rightarrow> pyval \<Rightarrow> exn + pyval" where
  "py_get (PDict d) k dflt = Inr (dict_get d k dflt)"
| "py_get v k dflt = Inl (Exn AttributeError ''object has no attribute get'')"

subsection \<open>Strings\<close>

text \<open>\<open>sub in s\<close>.\<close>

primrec contains :: "string \<Rightarrow> string \<Rightarrow> bool" where
  "contains sub [] = (sub = [])"
| "contains sub (c # cs) = (prefix sub (c # cs) \<or> contains sub cs)"

text \<open>
  \<open>s.count(sub)\<close>: the number of non-overlapping occurrences, found from the left;
  for the empty pattern Python answers \<open>len(s) + 1\<close>.
\<close>

function py_count :: "string \<Rightarrow> string \<Rightarrow> nat" where
  "py_count sub s =
     (if sub = [] then Suc (length s)
      else if s = [] then 0
      else if prefix sub s then Suc (py_count sub (drop (length sub) s))
      else py_count sub (tl s))"
  by pat_completeness auto
termination
  by (relation "measure (\<lambda>(sub, s). length s)") auto

declare py_count.simps [simp del]

text \<open>\<open>upper()\<close> and \<open>lower()\<close> on ASCII letters (other characters are left as they are).\<close>

definition upper_char :: "char \<Rightarrow> char" where
  "upper_char c = (let n = (of_char c :: nat) in if 97 \<le> n \<and> n \<le> 122 then char_of (n - 32) else c)"

definition lower_char :: "char \<Rightarrow> char" where
  "lower_char c = (let n = (of_char c :: nat) in if 65 \<le> n \<and> n \<le> 90 then char_of (n + 32) else c)"

definition py_upper :: "string \<Rightarrow> string" where
  "py_upper s = map upper_char s"

definition py_lower :: "string \<Rightarrow> string" where
  "py_lower s = map lower_char s"

text \<open>\<open>strip()\<close> with the ASCII white space, and \<open>split('\n')\<close>.\<close>

definition is_space :: "char \<Rightarrow> bool" where
  "is_space c = (let n = (of_char c :: nat) in (9 \<le> n \<and> n \<le> 13) \<or> (28 \<le> n \<and> n \<le> 32))"

definition py_strip :: "string \<Rightarrow> string" where
  "py_strip s = rev (dropWhile is_space (rev (dropWhile is_space s)))"

primrec split_on :: "char \<Rightarrow> string \<Rightarrow> string list" where
  "split_on d [] = [[]]"
| "split_on d (c # cs) =
     (if c = d then [] # split_on d cs
      else (case split_on d cs of [] \<Rightarrow> [[c]] | x # xs \<Rightarrow> (c # x) # xs))"

text \<open>Decimal digits of a natural number, as an f-string prints it.\<close>

fun dec :: "nat \<Rightarrow> string" where
  "dec n = (if n < 10 then [char_of (48 + n)] else dec (n div 10) @ [char_of (48 + n mod 10)])"

declare dec.simps [simp del]

subsection \<open>Paths\<close>

text \<open>A resolved absolute path is the list of its components; the root is \<open>[]\<close>.\<close>

type_synonym path = "string list"

definition parent :: "path \<Rightarrow> path" where
  "parent p = butlast p"

definition path_name :: "path \<Rightarrow> string" where
  "path_name p = (if p = [] then [] else last p)"

definition path_str :: "path \<Rightarrow> string" where
  "path_str p = (if p = [] then ''/'' else concat (map (\<lambda>c. ''/'' @ c) p))"

subsection \<open>The environment and the effects\<close>

text \<open>What \<open>path.exists()\<close>, \<open>open\<close> and \<open>json.load\<close> give for a JSON file.\<close>

datatype json_file = NoFile | LoadRaises exn | Loaded pyval

text \<open>What \<open>subprocess.run\<close> gives: an exception, or the return code and the captured stdout.\<close>

datatype proc_result = ProcRaises exn | ProcDone int string

datatype text_read = ReadRaises exn | ReadText string

text \<open>
  The extension module. Its entry point receives the record (the same dict object the
  caller holds) and either returns a value or raises; the first component of its answer
  is the state in which it leaves the dict it was given.
\<close>

datatype hook_end = HookReturns pyval | HookRaises exn

type_synonym hook = "pydict \<Rightarrow> pydict \<times> hook_end"

datatype ext_load = ExtLoadRaises exn | ExtModule "hook option"

record datetime =
  dt_micros :: int
  dt_aware :: bool

record env =
  path_is_dir :: "path \<Rightarrow> bool"
  path_exists :: "path \<Rightarrow> bool"
  cwd :: path
  script_file :: path
  json_files :: "path \<Rightarrow> json_file"
  json_loads :: "string \<Rightarrow> pyval option"
  run_housekeeping :: "path \<Rightarrow> path \<Rightarrow> proc_result"
  glob_plans :: "path \<Rightarrow> (string \<times> text_read) list"
  git_status :: "path \<Rightarrow> proc_result"
  now_gather :: int
  now_write :: int
  isoformat :: "datetime \<Rightarrow> string"
  strftime :: "datetime \<Rightarrow> string \<Rightarrow> string"
  fromisoformat :: "string \<Rightarrow> datetime option"
  mkdir :: "path \<Rightarrow> exn option"
  write_text :: "path \<Rightarrow> exn option"
  load_extension :: "path \<Rightarrow> ext_load"
  py_str :: "pyval \<Rightarrow> string"

text \<open>
  \<open>now_gather\<close> and \<open>now_write\<close> are the two readings of \<open>datetime.now()\<close> (in
  get_wind_down_data and in create_session_file), in microseconds; both are naive.
  \<open>json_loads\<close> is \<open>json.loads\<close> (\<open>None\<close> for JSONDecodeError), \<open>fromisoformat\<close> is
  \<open>datetime.fromisoformat\<close> on a string (\<open>None\<close> for ValueError), \<open>py_str\<close> is \<open>str()\<close>.
  Other exceptions of \<open>json.loads\<close> (RecursionError on very deep nesting, ValueError on
  an integer with too many digits) have no counterpart: an output on which it raises one
  of them is outside the model.
\<close>

definition naive :: "int \<Rightarrow> datetime" where
  "naive t = \<lparr>dt_micros = t, dt_aware = False\<rparr>"

datatype call =
    CallAcquireLock | CallReleaseLock
  | CallSessionState | CallSanityCheck | CallPendingWork | CallUncommitted
  | CallCreateSessionFile bool
  | CallExtensionHook

text \<open>The fields that create_session_file puts into the text of the session file.\<close>

record session_doc =
  doc_session_id :: string
  doc_date :: string
  doc_aget_version :: pyval
  doc_agent_name :: pyval
  doc_notes :: pyval
  doc_pending :: pyval
  doc_ended :: string

datatype printed = OutText string | OutJson bool pydict

datatype effect =
    Called call
  | Stderr string
  | Stdout printed
  | Mkdir path
  | WriteFile path session_doc

text \<open>Sequencing: an exception ends the run, the effects so far are kept.\<close>

definition bind_run ::
    "(exn + 'a) \<times> effect list \<Rightarrow> ('a \<Rightarrow> (exn + 'b) \<times> effect list) \<Rightarrow> (exn + 'b) \<times> effect list" where
  "bind_run m f =
     (case m of
        (Inl e, es) \<Rightarrow> (Inl e, es)
      | (Inr x, es) \<Rightarrow> (case f x of (r, es') \<Rightarrow> (r, es @ es')))"

text \<open>\<open>log_diagnostic(msg)\<close> when verbose (the elapsed-time prefix is not modelled).\<close>

definition log_diagnostic :: "bool \<Rightarrow> string \<Rightarrow> effect list" where
  "log_diagnostic verbose msg = (if verbose then [Stderr msg] else [])"

subsection \<open>Collectors\<close>

definition load_json_file :: "env \<Rightarrow> path \<Rightarrow> pyval \<Rightarrow> exn + pyval" where
  "load_json_file E p dflt =
     (case json_files E p of
        NoFile \<Rightarrow> Inr dflt
      | LoadRaises e \<Rightarrow> if catches [JSONDecodeError, OSError] e then Inr dflt else Inl e
      | Loaded v \<Rightarrow> Inr v)"

definition get_session_state :: "env \<Rightarrow> path \<Rightarrow> (exn + pyval) \<times> effect list" where
  "get_session_state E agent_path =
     (load_json_file E (agent_path @ [''.aget'', ''session_state.json'']) (PDict []),
      [Called CallSessionState])"

definition sanity_report ::
    "pyval \<Rightarrow> pyval \<Rightarrow> pyval \<Rightarrow> pyval \<Rightarrow> pyval \<Rightarrow> string \<Rightarrow> pydict" where
  "sanity_report st passed tot warns errs msg =
     [(''status'', st), (''checks_passed'', passed), (''checks_total'', tot),
      (''warnings'', warns), (''errors'', errs), (''message'', PStr msg)]"

definition summary_get :: "pyval \<Rightarrow> string \<Rightarrow> exn + pyval" where
  "summary_get data k =
     (case py_get data ''summary'' (PDict []) of
        Inl e \<Rightarrow> Inl e
      | Inr summary \<Rightarrow> py_get summary k (PInt 0))"

text \<open>The dict built from the tool's JSON output; any \<open>.get\<close> on a non-dict raises.\<close>

definition structured_report :: "pyval \<Rightarrow> exn + pydict" where
  "structured_report data =
     (case py_get data ''status'' (PStr ''unknown'') of Inl e \<Rightarrow> Inl e | Inr st \<Rightarrow>
      case summary_get data ''passed'' of Inl e \<Rightarrow> Inl e | Inr passed \<Rightarrow>
      case summary_get data ''total'' of Inl e \<Rightarrow> Inl e | Inr tot \<Rightarrow>
      case summary_get data ''warnings'' of Inl e \<Rightarrow> Inl e | Inr warns \<Rightarrow>
      case summary_get data ''errors'' of Inl e \<Rightarrow> Inl e | Inr errs \<Rightarrow>
        Inr (sanity_report st passed tot warns errs []))"

text \<open>The textual fallback: count the markers in the captured output.\<close>

definition text_report :: "string \<Rightarrow> pydict" where
  "text_report out =
     (let passed = py_count ''[+]'' out + py_count ''PASS'' out;
          failed = py_count ''[-]'' out + py_count ''FAIL'' out
      in sanity_report (PStr (if failed = 0 then ''healthy'' else ''warning''))
           (PInt (int passed)) (PInt (int (passed + failed))) (PInt (int failed)) (PInt 0)
           (''Sanity check passed ('' @ dec passed @ ''/'' @ dec (passed + failed) @ '')''))"

definition unknown_report :: pydict where
  "unknown_report =
     sanity_report (PStr ''unknown'') (PInt 0) (PInt 0) (PInt 0) (PInt 0)
       ''No sanity check script found''"

definition error_report :: "exn \<Rightarrow> pydict" where
  "error_report e =
     sanity_report (PStr ''error'') (PInt 0) (PInt 0) (PInt 0) (PInt 1)
       (''Sanity check failed to execute: '' @ exn_str e)"

definition skipped_report :: pydict where
  "skipped_report =
     sanity_report (PStr ''skipped'') (PInt 0) (PInt 0) (PInt 0) (PInt 0)
       ''Sanity check skipped by user''"

definition script_locations :: "env \<Rightarrow> path \<Rightarrow> path list" where
  "script_locations E agent_path =
     [agent_path @ [''scripts'', ''aget_housekeeping_protocol.py''],
      agent_path @ [''.aget'', ''patterns'', ''session'', ''aget_housekeeping_protocol.py''],
      parent (script_file E) @ [''aget_housekeeping_protocol.py'']]"

text \<open>The body of the \<open>try\<close> of run_sanity_check, for the script that was found.\<close>

definition sanity_try :: "env \<Rightarrow> path \<Rightarrow> path \<Rightarrow> exn + pydict" where
  "sanity_try E script agent_path =
     (case run_housekeeping E script agent_path of
        ProcRaises e \<Rightarrow> Inl e
      | ProcDone rc out \<Rightarrow>
          (case (if out \<noteq> [] then json_loads E out else None) of
             Some data \<Rightarrow> structured_report data
           | None \<Rightarrow> Inr (text_report out)))"

definition run_sanity_check :: "env \<Rightarrow> path \<Rightarrow> bool \<Rightarrow> (exn + pydict) \<times> effect list" where
  "run_sanity_check E agent_path verbose =
     (case find (path_exists E) (script_locations E agent_path) of
        None \<Rightarrow> (Inr unknown_report, [Called CallSanityCheck])
      | Some script \<Rightarrow>
          (case sanity_try E script agent_path of
             Inr report \<Rightarrow> (Inr report, [Called CallSanityCheck])
           | Inl e \<Rightarrow>
               if is_Exception e
               then (Inr (error_report e),
                     Called CallSanityCheck
                       # log_diagnostic verbose (''Sanity check error: '' @ exn_str e))
               else (Inl e, [Called CallSanityCheck])))"

fun scan_plans :: "(string \<times> text_read) list \<Rightarrow> string list \<Rightarrow> exn + string list" where
  "scan_plans [] pending = Inr pending"
| "scan_plans ((name, ReadText content) # rest) pending =
     scan_plans rest
       (if contains ''IN_PROGRESS'' (py_upper content)
           \<or> contains ''status: in_progress'' (py_lower content)
        then pending @ [name] else pending)"
| "scan_plans ((name, ReadRaises e) # rest) pending =
     (if catches [OSError] e then scan_plans rest pending else Inl e)"

definition scan_pending_work :: "env \<Rightarrow> path \<Rightarrow> (exn + string list) \<times> effect list" where
  "scan_pending_work E agent_path =
     (let planning_dir = agent_path @ [''planning'']
      in (if \<not> path_is_dir E planning_dir then Inr []
          else scan_plans (glob_plans E planning_dir) [],
          [Called CallPendingWork]))"

definition get_uncommitted_changes :: "env \<Rightarrow> path \<Rightarrow> (exn + string list) \<times> effect list" where
  "get_uncommitted_changes E agent_path =
     (case git_status E agent_path of
        ProcRaises e \<Rightarrow>
          if catches [TimeoutExpired, FileNotFoundError] e then Inr [] else Inl e
      | ProcDone rc out \<Rightarrow>
          if rc = 0 \<and> py_strip out \<noteq> [] then Inr (split_on (CHR 0x0A) (py_strip out))
          else Inr [],
      [Called CallUncommitted])"

subsection \<open>Handoff writer\<close>

text \<open>
  create_session_file: make the sessions directory if it is missing, read the identity,
  write the document. OSError (IOError) becomes the answer \<open>None\<close>; the return value is
  the path of the file relative to the agent root.
\<close>

definition session_relpath :: "string \<Rightarrow> string" where
  "session_relpath session_id = ''sessions/'' @ session_id @ ''.md''"

definition write_session ::
    "env \<Rightarrow> path \<Rightarrow> pydict \<Rightarrow> (exn + string option) \<times> effect list" where
  "write_session E agent_path data =
     (case load_json_file E (agent_path @ [''.aget'', ''version.json'']) (PDict []) of
        Inl e \<Rightarrow> (Inl e, [])
      | Inr version_data \<Rightarrow>
     (case py_get version_data ''aget_version'' (PStr ''unknown'') of
        Inl e \<Rightarrow> (Inl e, [])
      | Inr aget_version \<Rightarrow>
     (case py_get version_data ''agent_name'' (PStr (path_name agent_path)) of
        Inl e \<Rightarrow> (Inl e, [])
      | Inr agent_name \<Rightarrow>
        (let now = naive (now_write E);
             session_id = ''session_'' @ strftime E now ''%Y-%m-%d_%H%M'';
             session_file = agent_path @ [''sessions'', session_id @ ''.md''];
             content = \<lparr>doc_session_id = session_id,
                        doc_date = strftime E now ''%Y-%m-%d'',
                        doc_aget_version = aget_version,
                        doc_agent_name = agent_name,
                        doc_notes = dict_get data ''handoff_notes'' (PStr ''No notes provided.''),
                        doc_pending = dict_get data ''pending_work'' (PList []),
                        doc_ended = strftime E now ''%Y-%m-%d %H:%M''\<rparr>
         in (case write_text E session_file of
               None \<Rightarrow> (Inr (Some (session_relpath session_id)), [WriteFile session_file content])
             | Some e \<Rightarrow> if catches [OSError] e then (Inr None, []) else (Inl e, []))))))"

definition create_session_file ::
    "env \<Rightarrow> path \<Rightarrow> pydict \<Rightarrow> bool \<Rightarrow> (exn + string option) \<times> effect list" where
  "create_session_file E agent_path data mandatory =
     (let sessions_dir = agent_path @ [''sessions'']
      in bind_run (Inr (), [Called (CallCreateSessionFile mandatory)]) (\<lambda>_.
         if path_is_dir E sessions_dir then write_session E agent_path data
         else (case mkdir E sessions_dir of
                 None \<Rightarrow> bind_run (Inr (), [Mkdir sessions_dir]) (\<lambda>_.
                           write_session E agent_path data)
               | Some e \<Rightarrow> if catches [OSError] e then (Inr None, []) else (Inl e, []))))"

subsection \<open>Decision pipeline\<close>

definition initial_data :: "env \<Rightarrow> path \<Rightarrow> string \<Rightarrow> pydict" where
  "initial_data E agent_path handoff_notes =
     (let now = naive (now_gather E)
      in [(''timestamp'', PStr (isoformat E now)),
          (''agent_path'', PStr (path_str agent_path)),
          (''session'', PDict [(''ended'', PStr (isoformat E now)),
                               (''started'', PNone),
                               (''duration_seconds'', PNone)]),
          (''sanity_check'', PDict []),
          (''pending_work'', PList []),
          (''uncommitted_changes'', PList []),
          (''handoff_notes'', PStr handoff_notes),
          (''session_file'', PNone),
          (''mandatory_handoff'', PBool False),
          (''clean_close'', PBool True)])"

text \<open>\<open>data['session'][k] = v\<close>.\<close>

definition set_session_field :: "pydict \<Rightarrow> string \<Rightarrow> pyval \<Rightarrow> exn + pydict" where
  "set_session_field data k v =
     (case dict_item data ''session'' of
        Inl e \<Rightarrow> Inl e
      | Inr (PDict session) \<Rightarrow> Inr (dict_set data ''session'' (PDict (dict_set session k v)))
      | Inr _ \<Rightarrow> Inl (Exn TypeError ''object does not support item assignment''))"

text \<open>\<open>int(x)\<close> of a quotient: truncation towards zero.\<close>

definition trunc_div :: "int \<Rightarrow> int \<Rightarrow> int" where
  "trunc_div a b = (if 0 \<le> a then a div b else - ((- a) div b))"

text \<open>
  L021 check 1. \<open>fromisoformat\<close> raises TypeError on a value that is not a string, and
  subtracting an aware datetime from the naive \<open>now\<close> raises TypeError; the handler
  catches ValueError only. The duration is the whole number of seconds (the float
  rounding of \<open>total_seconds()\<close> is not modelled).
\<close>

definition session_timing :: "env \<Rightarrow> pydict \<Rightarrow> pyval \<Rightarrow> exn + pydict" where
  "session_timing E data session_state =
     (case py_get session_state ''current_session'' (PDict []) of
        Inl e \<Rightarrow> Inl e
      | Inr current \<Rightarrow>
     (case py_get current ''started'' PNone of
        Inl e \<Rightarrow> Inl e
      | Inr started \<Rightarrow>
          if truthy started then
            (case set_session_field data ''started'' started of
               Inl e \<Rightarrow> Inl e
             | Inr data1 \<Rightarrow>
                (case started of
                   PStr s \<Rightarrow>
                     (case fromisoformat E s of
                        None \<Rightarrow> Inr data1
                      | Some t \<Rightarrow>
                          if dt_aware t
                          then Inl (Exn TypeError
                                 ''cannot subtract offset-naive and offset-aware datetimes'')
                          else set_session_field data1 ''duration_seconds''
                                 (PInt (trunc_div (now_gather E - dt_micros t) 1000000)))
                 | _ \<Rightarrow> Inl (Exn TypeError ''fromisoformat: argument must be str'')))
          else Inr data))"

text \<open>L021 check 2: the sanity report, or the placeholder of the skip path.\<close>

definition sanity_stage :: "env \<Rightarrow> path \<Rightarrow> bool \<Rightarrow> bool \<Rightarrow> (exn + pydict) \<times> effect list" where
  "sanity_stage E agent_path skip_sanity verbose =
     (if skip_sanity then (Inr skipped_report, [])
      else bind_run (Inr (), log_diagnostic verbose ''Running sanity check...'') (\<lambda>_.
             run_sanity_check E agent_path verbose))"

text \<open>CAP-SESSION-005: the mandatory handoff trigger.\<close>

definition handoff_trigger :: "env \<Rightarrow> path \<Rightarrow> pydict \<Rightarrow> (exn + pydict) \<times> effect list" where
  "handoff_trigger E agent_path data =
     bind_run (dict_item data ''pending_work'', []) (\<lambda>pending.
       if truthy pending then
         (let data1 = dict_set data ''mandatory_handoff'' (PBool True)
          in bind_run (create_session_file E agent_path data1 True) (\<lambda>session_file.
               (case session_file of
                  None \<Rightarrow> (Inr data1, [])
                | Some f \<Rightarrow>
                    if f \<noteq> [] then (Inr (dict_set data1 ''session_file'' (PStr f)), [])
                    else (Inr data1, []))))
       else (Inr data, []))"

text \<open>Determine clean close.\<close>

definition clean_close_rule :: "pydict \<Rightarrow> exn + pydict" where
  "clean_close_rule data =
     (case dict_item data ''sanity_check'' of
        Inl e \<Rightarrow> Inl e
      | Inr sanity \<Rightarrow>
     (case py_get sanity ''status'' (PStr ''unknown'') of
        Inl e \<Rightarrow> Inl e
      | Inr sanity_status \<Rightarrow>
          if sanity_status = PStr ''error''
          then Inr (dict_set data ''clean_close'' (PBool False))
          else Inr data))"

text \<open>Load agent identity for display.\<close>

definition agent_identity :: "env \<Rightarrow> path \<Rightarrow> pydict \<Rightarrow> exn + pydict" where
  "agent_identity E agent_path data =
     (case load_json_file E (agent_path @ [''.aget'', ''version.json'']) (PDict []) of
        Inl e \<Rightarrow> Inl e
      | Inr version_data \<Rightarrow>
     (case py_get version_data ''agent_name'' (PStr (path_name agent_path)) of
        Inl e \<Rightarrow> Inl e
      | Inr agent_name \<Rightarrow> Inr (dict_set data ''agent_name'' agent_name)))"

definition get_wind_down_data ::
    "env \<Rightarrow> path \<Rightarrow> bool \<Rightarrow> string \<Rightarrow> bool \<Rightarrow> (exn + pydict) \<times> effect list" where
  "get_wind_down_data E agent_path skip_sanity handoff_notes verbose =
     bind_run (get_session_state E agent_path) (\<lambda>session_state.
     bind_run (session_timing E (initial_data E agent_path handoff_notes) session_state, [])
       (\<lambda>data1.
     bind_run (sanity_stage E agent_path skip_sanity verbose) (\<lambda>sanity.
     let data2 = dict_set data1 ''sanity_check'' (PDict sanity) in
     bind_run (scan_pending_work E agent_path) (\<lambda>pending.
     let data3 = dict_set data2 ''pending_work'' (PList (map PStr pending)) in
     bind_run (get_uncommitted_changes E agent_path) (\<lambda>changes.
     let data4 = dict_set data3 ''uncommitted_changes'' (PList (map PStr changes)) in
     bind_run (handoff_trigger E agent_path data4) (\<lambda>data5.
     bind_run (clean_close_rule data5, []) (\<lambda>data6.
       (agent_identity E agent_path data6, []))))))))"

subsection \<open>Extension hook\<close>

text \<open>
  call_extension_hook (WD-008). Loading the module or running the entry point may raise;
  \<open>except Exception\<close> prints a warning and keeps \<open>data\<close>. A return value that is not a
  dict is ignored, with a diagnostic line in verbose mode only.
\<close>

definition hook_warning :: "exn \<Rightarrow> string" where
  "hook_warning e = ''Warning: Extension hook failed: '' @ exn_str e"

definition call_extension_hook ::
    "env \<Rightarrow> path \<Rightarrow> pydict \<Rightarrow> bool \<Rightarrow> (exn + pydict) \<times> effect list" where
  "call_extension_hook E agent_path data verbose =
     (let ext_path = agent_path @ [''scripts'', ''wind_down_ext.py'']
      in if \<not> path_exists E ext_path then (Inr data, [Called CallExtensionHook])
         else
           (case load_extension E ext_path of
              ExtLoadRaises e \<Rightarrow>
                if is_Exception e
                then (Inr data, [Called CallExtensionHook, Stderr (hook_warning e)])
                else (Inl e, [Called CallExtensionHook])
            | ExtModule None \<Rightarrow> (Inr data, [Called CallExtensionHook])
            | ExtModule (Some post_wind_down) \<Rightarrow>
                (case post_wind_down data of
                   (data', HookReturns (PDict result)) \<Rightarrow> (Inr result, [Called CallExtensionHook])
                 | (data', HookReturns _) \<Rightarrow>
                     (Inr data',
                      Called CallExtensionHook
                        # log_diagnostic verbose ''Extension hook returned non-dict, ignoring'')
                 | (data', HookRaises e) \<Rightarrow>
                     if is_Exception e
                     then (Inr data', [Called CallExtensionHook, Stderr (hook_warning e)])
                     else (Inl e, [Called CallExtensionHook]))))"

subsection \<open>Re-entrancy guard\<close>

text \<open>
  The guard works on the lock file and on the two module globals. What the platform
  answers is in \<open>lock_env\<close>: whether \<open>open(_lock_file, 'w')\<close> succeeds, what \<open>fcntl\<close> and
  \<open>msvcrt\<close> do (module missing, lock refused with an OSError, lock granted), the clock
  and the modification time read by the fallback, and whether writing the owner marker
  and unlinking the file succeed (each can fail with an OSError only).
\<close>

datatype lock_prim = NotImportable | Refused | Granted

record lock_env =
  open_ok :: bool
  fcntl_flock :: lock_prim
  msvcrt_locking :: lock_prim
  time_time :: real
  stat_mtime :: real
  marker_write_ok :: bool
  getpid :: nat
  now_lock :: string
  unlink_ok :: bool

record lock_state =
  lock_files :: "path \<Rightarrow> string option"
  g_lock_file :: "path option"
  g_lock_fd :: bool

text \<open>The outer handler \<open>except (IOError, OSError)\<close> of acquire_lock.\<close>

definition acquire_failed :: "lock_state \<Rightarrow> bool \<times> lock_state" where
  "acquire_failed L = (False, if g_lock_fd L then L\<lparr>g_lock_fd := False\<rparr> else L)"

definition write_marker :: "lock_env \<Rightarrow> path \<Rightarrow> lock_state \<Rightarrow> bool \<times> lock_state" where
  "write_marker LE lock_file L =
     (if marker_write_ok LE
      then (True,
            L\<lparr>lock_files := (lock_files L)
                 (lock_file \<mapsto> ''locked by PID '' @ dec (getpid LE) @ '' at '' @ now_lock LE
                                @ [CHR 0x0A])\<rparr>)
      else acquire_failed L)"

text \<open>The simple fallback: a lock file younger than 5 minutes counts as held.\<close>

definition cooldown_fallback :: "lock_env \<Rightarrow> path \<Rightarrow> lock_state \<Rightarrow> bool \<times> lock_state" where
  "cooldown_fallback LE lock_file L =
     (if lock_files L lock_file \<noteq> None \<and> time_time LE - stat_mtime LE < 300
      then (False, L\<lparr>g_lock_fd := False\<rparr>)
      else write_marker LE lock_file L)"

definition acquire_lock :: "lock_env \<Rightarrow> path \<Rightarrow> lock_state \<Rightarrow> bool \<times> lock_state" where
  "acquire_lock LE agent_path L =
     (let lock_file = agent_path @ [''.aget'', ''.wind_down.lock''];
          L1 = L\<lparr>g_lock_file := Some lock_file\<rparr>
      in if \<not> open_ok LE then acquire_failed L1
         else
           (let L2 = L1\<lparr>lock_files := (lock_files L1)(lock_file \<mapsto> []), g_lock_fd := True\<rparr>
            in (case fcntl_flock LE of
                  Granted \<Rightarrow> write_marker LE lock_file L2
                | Refused \<Rightarrow> acquire_failed L2
                | NotImportable \<Rightarrow>
                    (case msvcrt_locking LE of
                       Granted \<Rightarrow> write_marker LE lock_file L2
                     | _ \<Rightarrow> cooldown_fallback LE lock_file L2))))"

definition release_lock :: "lock_env \<Rightarrow> lock_state \<Rightarrow> lock_state" where
  "release_lock LE L =
     (let L1 = (if g_lock_fd L then L\<lparr>g_lock_fd := False\<rparr> else L)
      in (case g_lock_file L1 of
            None \<Rightarrow> L1
          | Some lock_file \<Rightarrow>
              if lock_files L1 lock_file \<noteq> None \<and> unlink_ok LE
              then L1\<lparr>lock_files := (lock_files L1)(lock_file := None)\<rparr>
              else L1))"

subsection \<open>Workspace locator\<close>

text \<open>find_agent_root: at most four directories, from the start upwards.\<close>

fun walk_up :: "(path \<Rightarrow> bool) \<Rightarrow> nat \<Rightarrow> path \<Rightarrow> path option" where
  "walk_up is_dir 0 p = None"
| "walk_up is_dir (Suc n) p =
     (if is_dir (p @ [''.aget'']) then Some p
      else if parent p = p then None
      else walk_up is_dir n (parent p))"

definition find_agent_root :: "env \<Rightarrow> path option \<Rightarrow> path option" where
  "find_agent_root E start_path =
     walk_up (path_is_dir E) 4 (case start_path of Some p \<Rightarrow> p | None \<Rightarrow> cwd E)"

subsection \<open>Reporter\<close>

definition bind_exn :: "exn + 'a \<Rightarrow> ('a \<Rightarrow> exn + 'b) \<Rightarrow> exn + 'b" where
  "bind_exn m f = (case m of Inl e \<Rightarrow> Inl e | Inr x \<Rightarrow> f x)"

text \<open>\<open>for x in v\<close>: a list, the characters of a string, the keys of a dict.\<close>

fun py_iter :: "pyval \<Rightarrow> exn + pyval list" where
  "py_iter (PList xs) = Inr xs"
| "py_iter (PStr s) = Inr (map (\<lambda>c. PStr [c]) s)"
| "py_iter (PDict d) = Inr (map (\<lambda>kv. PStr (fst kv)) d)"
| "py_iter v = Inl (Exn TypeError ''object is not iterable'')"

text \<open>
  \<open>v[:10]\<close> together with \<open>len(v)\<close>. Slicing a dict raises (TypeError before
  Python 3.12, KeyError from 3.12 on; the model takes TypeError).
\<close>

fun py_first10 :: "pyval \<Rightarrow> exn + pyval \<times> nat" where
  "py_first10 (PList xs) = Inr (PList (take 10 xs), length xs)"
| "py_first10 (PStr s) = Inr (PStr (take 10 s), length s)"
| "py_first10 v = Inl (Exn TypeError ''object is not subscriptable'')"

definition sanity_gate_line :: "env \<Rightarrow> pyval \<Rightarrow> pyval \<Rightarrow> pyval \<Rightarrow> exn + string" where
  "sanity_gate_line E status passed tot =
     (if status = PStr ''healthy''
      then Inr (''Sanity Gate: Sanity check passed ('' @ py_str E passed @ ''/'' @ py_str E tot @ '')'')
      else if status = PStr ''warning''
      then Inr (''Sanity Gate: WARNING ('' @ py_str E passed @ ''/'' @ py_str E tot @ '' passed)'')
      else if status = PStr ''error''
      then Inr (''Sanity Gate: ERROR ('' @ py_str E passed @ ''/'' @ py_str E tot @ '' passed)'')
      else if status = PStr ''skipped''
      then Inr ''Sanity Gate: SKIPPED''
      else (case status of
              PStr s \<Rightarrow> Inr (''Sanity Gate: '' @ py_upper s)
            | _ \<Rightarrow> Inl (Exn AttributeError ''object has no attribute upper'')))"

definition pending_lines :: "env \<Rightarrow> pydict \<Rightarrow> exn + pyval list" where
  "pending_lines E data =
     bind_exn (dict_item data ''pending_work'') (\<lambda>pending.
       if truthy pending then
         bind_exn (py_iter pending) (\<lambda>items.
           Inr ([PStr ''Pending Work:''] @ map (\<lambda>item. PStr (''  - '' @ py_str E item)) items
                @ [PStr []]
                @ (if truthy (dict_get data ''mandatory_handoff'' PNone)
                   then [PStr ''  [MANDATORY HANDOFF TRIGGERED - CAP-SESSION-005-01]'', PStr []]
                   else [])))
       else Inr [])"

definition uncommitted_lines :: "env \<Rightarrow> pydict \<Rightarrow> exn + pyval list" where
  "uncommitted_lines E data =
     (let uncommitted = dict_get data ''uncommitted_changes'' (PList [])
      in if truthy uncommitted then
           bind_exn (py_first10 uncommitted) (\<lambda>(first, n).
           bind_exn (py_iter first) (\<lambda>changes.
             Inr ([PStr ''Uncommitted Changes:'']
                  @ map (\<lambda>change. PStr (''  '' @ py_str E change)) changes
                  @ (if n > 10 then [PStr (''  ... and '' @ dec (n - 10) @ '' more'')] else [])
                  @ [PStr []])))
         else Inr [])"

definition session_file_lines :: "env \<Rightarrow> pydict \<Rightarrow> pyval list" where
  "session_file_lines E data =
     (if truthy (dict_get data ''session_file'' PNone) then
        [PStr (''Session Note: '' @ py_str E (dict_get data ''session_file'' PNone)),
         PStr (''   Created: ''
               @ (if truthy (dict_get data ''mandatory_handoff'' PNone)
                  then ''MANDATORY'' else ''voluntary'')
               @ '' (''
               @ (if truthy (dict_get data ''mandatory_handoff'' PNone)
                  then ''pending work detected'' else ''user requested'')
               @ '')''),
         PStr []]
      else [])"

definition extension_lines :: "pydict \<Rightarrow> pyval list" where
  "extension_lines data =
     (let ext_output = dict_get data ''extension_output'' (PStr [])
      in if truthy ext_output then [ext_output, PStr []] else [])"

text \<open>\<open>"\n".join(lines)\<close>: every item has to be a string.\<close>

fun join_lines :: "pyval list \<Rightarrow> exn + string" where
  "join_lines [] = Inr []"
| "join_lines [PStr s] = Inr s"
| "join_lines (PStr s # rest) =
     (case join_lines rest of Inl e \<Rightarrow> Inl e | Inr t \<Rightarrow> Inr (s @ [CHR 0x0A] @ t))"
| "join_lines (v # rest) = Inl (Exn TypeError ''sequence item: expected str instance'')"

definition format_human_output :: "env \<Rightarrow> pydict \<Rightarrow> exn + string" where
  "format_human_output E data =
     bind_exn (dict_item data ''sanity_check'') (\<lambda>sanity.
     bind_exn (py_get sanity ''status'' (PStr ''unknown'')) (\<lambda>status.
     bind_exn (py_get sanity ''checks_passed'' (PInt 0)) (\<lambda>passed.
     bind_exn (py_get sanity ''checks_total'' (PInt 0)) (\<lambda>tot.
     bind_exn (sanity_gate_line E status passed tot) (\<lambda>gate.
     bind_exn (pending_lines E data) (\<lambda>pending.
     bind_exn (uncommitted_lines E data) (\<lambda>uncommitted.
       join_lines
         ([PStr (replicate 60 (CHR ''='')), PStr ''SESSION WIND DOWN'',
           PStr (replicate 60 (CHR ''='')), PStr [], PStr gate, PStr []]
          @ pending @ uncommitted @ session_file_lines E data @ extension_lines data
          @ [PStr (replicate 60 (CHR ''='')), PStr ''Session ended.'']))))))))"

text \<open>Exit code based on sanity status.\<close>

definition exit_code :: "pydict \<Rightarrow> exn + int" where
  "exit_code data =
     bind_exn (dict_item data ''sanity_check'') (\<lambda>sanity.
     bind_exn (py_get sanity ''status'' (PStr ''unknown'')) (\<lambda>sanity_status.
       if sanity_status = PStr ''error'' then Inr 2
       else if sanity_status = PStr ''warning'' then Inr 1
       else Inr 0))"

subsection \<open>Main\<close>

record args =
  arg_json :: bool
  arg_pretty :: bool
  arg_dir :: "path option"
  arg_notes :: string
  arg_skip_sanity :: bool
  arg_force :: bool
  arg_verbose :: bool
  arg_verify :: bool

text \<open>The \<open>--verify\<close> mode (L491): compare the script's own path with the canonical one.\<close>

definition verify_mode :: "env \<Rightarrow> (exn + int) \<times> effect list" where
  "verify_mode E =
     (case find_agent_root E (Some (parent (script_file E))) of
        Some agent_root \<Rightarrow>
          (let expected = agent_root @ [''scripts'', ''wind_down.py'']
           in if script_file E = expected
              then (Inr 0,
                    [Stdout (OutText (''PASS: wind_down.py at canonical path: '' @ path_str expected))])
              else (Inr 1,
                    [Stdout (OutText (''WARN: wind_down.py at '' @ path_str (script_file E)
                                      @ '', expected '' @ path_str expected))]))
      | None \<Rightarrow>
          (Inr 1, [Stdout (OutText ''WARN: Could not determine agent root for verification'')]))"

definition not_found_msg :: string where
  "not_found_msg = ''Could not find .aget/ directory''"

definition blocked_msg :: string where
  "blocked_msg =
     ''BLOCKED: Wind-down already running (CAP-SESSION-010). Use --force to bypass.''"

definition error_record :: "string \<Rightarrow> pydict" where
  "error_record msg = [(''clean_close'', PBool False), (''errors'', PList [PStr msg])]"

text \<open>The body of the \<open>try\<close> of main: gather, extension hook, output, exit code.\<close>

definition print_output :: "env \<Rightarrow> args \<Rightarrow> pydict \<Rightarrow> (exn + unit) \<times> effect list" where
  "print_output E a data =
     (if arg_json a then (Inr (), [Stdout (OutJson (arg_pretty a) data)])
      else (case format_human_output E data of
              Inl e \<Rightarrow> (Inl e, [])
            | Inr text \<Rightarrow> (Inr (), [Stdout (OutText text)])))"

definition log_clean_close :: "env \<Rightarrow> bool \<Rightarrow> pydict \<Rightarrow> (exn + unit) \<times> effect list" where
  "log_clean_close E verbose data =
     (if verbose then
        (case dict_item data ''clean_close'' of
           Inl e \<Rightarrow> (Inl e, [])
         | Inr v \<Rightarrow> (Inr (), [Stderr (''Data gathered, clean_close='' @ py_str E v)]))
      else (Inr (), []))"

definition wind_down_pass :: "env \<Rightarrow> args \<Rightarrow> path \<Rightarrow> (exn + int) \<times> effect list" where
  "wind_down_pass E a agent_path =
     bind_run (Inr (), log_diagnostic (arg_verbose a) (''Found agent at: '' @ path_str agent_path))
       (\<lambda>_.
     bind_run (get_wind_down_data E agent_path (arg_skip_sanity a) (arg_notes a) (arg_verbose a))
       (\<lambda>data.
     bind_run (log_clean_close E (arg_verbose a) data) (\<lambda>_.
     bind_run (call_extension_hook E agent_path data (arg_verbose a)) (\<lambda>data'.
     bind_run (Inr (), log_diagnostic (arg_verbose a) ''Extension hook complete'') (\<lambda>_.
     bind_run (print_output E a data') (\<lambda>_.
     bind_run (Inr (), log_diagnostic (arg_verbose a) ''Complete'') (\<lambda>_.
       (exit_code data', []))))))))"

text \<open>
  main, from the options that \<open>parser.parse_args()\<close> returned on: the \<open>--verify\<close> mode,
  the workspace lookup, the guard, the pass inside \<open>try\<close> and the release in \<open>finally\<close>.
\<close>

definition main ::
    "env \<Rightarrow> lock_env \<Rightarrow> args \<Rightarrow> lock_state \<Rightarrow> ((exn + int) \<times> effect list) \<times> lock_state" where
  "main E LE a L =
     (if arg_verify a then (verify_mode E, L)
      else
        (let es0 = log_diagnostic (arg_verbose a) ''Starting wind_down protocol''
         in (case find_agent_root E (arg_dir a) of
               None \<Rightarrow>
                 ((Inr 3,
                   es0 @ (if arg_json a
                          then [Stdout (OutJson (arg_pretty a) (error_record not_found_msg))]
                          else [Stderr (''Error: '' @ not_found_msg)])),
                  L)
             | Some agent_path \<Rightarrow>
                 (let (acquired, L1, es1) =
                        (if \<not> arg_force a
                         then (case acquire_lock LE agent_path L of
                                 (ok, L') \<Rightarrow> (ok, L', [Called CallAcquireLock]))
                         else (True, L, []))
                  in if \<not> acquired
                     then ((Inr 4,
                            es0 @ es1
                            @ (if arg_json a then [Stdout (OutJson False (error_record blocked_msg))]
                               else [Stderr blocked_msg])),
                           L1)
                     else (case wind_down_pass E a agent_path of
                             (r, es) \<Rightarrow>
                               if \<not> arg_force a
                               then ((r, es0 @ es1 @ es @ [Called CallReleaseLock]),
                                     release_lock LE L1)
                               else ((r, es0 @ es1 @ es), L1))))))"




subsection \<open>Predicates used in the statements\<close>

text \<open>A sanity report carries a status.\<close>

definition has_status :: "pydict \<Rightarrow> bool" where
  "has_status r =
     (case dict_item r ''status'' of
        Inr st \<Rightarrow> dict_get r ''status'' (PStr ''unknown'') = st
      | Inl e \<Rightarrow> False)"

text \<open>
  The effects get_wind_down_data can have (a call of create_session_file only with
  \<open>mandatory=True\<close>), and the effects of the handoff writer.
\<close>

fun gather_effect :: "effect \<Rightarrow> bool" where
  "gather_effect (Called CallSessionState) = True"
| "gather_effect (Called CallSanityCheck) = True"
| "gather_effect (Called CallPendingWork) = True"
| "gather_effect (Called CallUncommitted) = True"
| "gather_effect (Called (CallCreateSessionFile mandatory)) = mandatory"
| "gather_effect (Called c) = False"
| "gather_effect (Stderr s) = True"
| "gather_effect (Stdout t) = False"
| "gather_effect (Mkdir p) = True"
| "gather_effect (WriteFile p d) = True"

fun writer_effect :: "effect \<Rightarrow> bool" where
  "writer_effect (Called (CallCreateSessionFile mandatory)) = True"
| "writer_effect (Mkdir p) = True"
| "writer_effect (WriteFile p d) = True"
| "writer_effect e = False"

text \<open>
  The markers of the textual fallback as the specification counts them: every place of
  the text where a marker starts. Success markers are \<open>[+]\<close> and \<open>PASS\<close>, failure
  markers \<open>[-]\<close> and \<open>FAIL\<close>.
\<close>

definition occurrences :: "string \<Rightarrow> string \<Rightarrow> nat" where
  "occurrences sub s = length (filter (prefix sub) (suffixes s))"

definition success_markers :: "string \<Rightarrow> nat" where
  "success_markers out = occurrences ''[+]'' out + occurrences ''PASS'' out"

definition failure_markers :: "string \<Rightarrow> nat" where
  "failure_markers out = occurrences ''[-]'' out + occurrences ''FAIL'' out"

text \<open>
  The constraint of the data model on a SanityReport: the four counts are non-negative
  integers and \<open>checks_total\<close> is at least \<open>checks_passed\<close>.
\<close>

definition counts_ok :: "pydict \<Rightarrow> bool" where
  "counts_ok r =
     (case (dict_item r ''checks_passed'', dict_item r ''checks_total'',
            dict_item r ''warnings'', dict_item r ''errors'') of
        (Inr (PInt p), Inr (PInt t), Inr (PInt w), Inr (PInt e)) \<Rightarrow>
          0 \<le> p \<and> 0 \<le> t \<and> 0 \<le> w \<and> 0 \<le> e \<and> p \<le> t
      | _ \<Rightarrow> False)"

text \<open>Calls of the guard (acquire_lock, release_lock).\<close>

fun guard_effect :: "effect \<Rightarrow> bool" where
  "guard_effect (Called CallAcquireLock) = True"
| "guard_effect (Called CallReleaseLock) = True"
| "guard_effect e = False"

text \<open>
  Work of a pass: a call of one of the four collectors, of the handoff writer or of the
  extension hook, and a directory or session file written.
\<close>

fun work_effect :: "effect \<Rightarrow> bool" where
  "work_effect (Called CallSessionState) = True"
| "work_effect (Called CallSanityCheck) = True"
| "work_effect (Called CallPendingWork) = True"
| "work_effect (Called CallUncommitted) = True"
| "work_effect (Called (CallCreateSessionFile mandatory)) = True"
| "work_effect (Called CallExtensionHook) = True"
| "work_effect (Mkdir p) = True"
| "work_effect (WriteFile p d) = True"
| "work_effect e = False"

text \<open>The exit code the specification assigns to a sanity status.\<close>

definition status_exit_code :: "pyval \<Rightarrow> int" where
  "status_exit_code status =
     (if status = PStr ''error'' then 2 else if status = PStr ''warning'' then 1 else 0)"

text \<open>
  The record that reaches the Reporter: what get_wind_down_data returned, after the
  extension hook.
\<close>

definition reported_record :: "env \<Rightarrow> args \<Rightarrow> path \<Rightarrow> exn + pydict" where
  "reported_record E a agent_path =
     fst (bind_run
            (get_wind_down_data E agent_path (arg_skip_sanity a) (arg_notes a) (arg_verbose a))
            (\<lambda>data. call_extension_hook E agent_path data (arg_verbose a)))"

text \<open>
  The JSON value on the structured-output path of run_sanity_check: a script was found,
  it ran, its output is not empty and parses. \<open>None\<close> on every other path.
\<close>

definition structured_output :: "env \<Rightarrow> path \<Rightarrow> pyval option" where
  "structured_output E agent_path =
     (case find (path_exists E) (script_locations E agent_path) of
        None \<Rightarrow> None
      | Some script \<Rightarrow>
          (case run_housekeeping E script agent_path of
             ProcRaises e \<Rightarrow> None
           | ProcDone rc out \<Rightarrow> if out \<noteq> [] then json_loads E out else None))"



subsection \<open>Example workspaces\<close>

text \<open>
  A workspace \<open>/home/agent\<close> with one plan in progress, a housekeeping script that prints
  two success markers, no git and no extension: the end-to-end scenario of a mandatory
  handoff with exit code 0.
\<close>

definition agent0 :: path where "agent0 = [''home'', ''agent'']"

definition env0 :: env where
  "env0 =
     \<lparr>path_is_dir = (\<lambda>p. p = agent0 @ [''.aget''] \<or> p = agent0 @ [''planning'']),
      path_exists = (\<lambda>p. p = agent0 @ [''scripts'', ''aget_housekeeping_protocol.py'']),
      cwd = agent0,
      script_file = agent0 @ [''scripts'', ''wind_down.py''],
      json_files = (\<lambda>p. NoFile),
      json_loads = (\<lambda>s. None),
      run_housekeeping = (\<lambda>script dir. ProcDone 0 ''[+] tests PASS''),
      glob_plans = (\<lambda>p. [(''PROJECT_PLAN_x.md'', ReadText ''Status: in_progress'')]),
      git_status = (\<lambda>p. ProcRaises (Exn FileNotFoundError ''git'')),
      now_gather = 0,
      now_write = 0,
      isoformat = (\<lambda>t. ''2026-01-01T10:00:00''),
      strftime = (\<lambda>t f. if f = ''%Y-%m-%d'' then ''2026-01-01''
                          else if f = ''%Y-%m-%d_%H%M'' then ''2026-01-01_1000''
                          else ''2026-01-01 10:00''),
      fromisoformat = (\<lambda>s. None),
      mkdir = (\<lambda>p. None),
      write_text = (\<lambda>p. None),
      load_extension = (\<lambda>p. ExtModule None),
      py_str = (\<lambda>v. case v of PStr s \<Rightarrow> s | _ \<Rightarrow> ''?'')\<rparr>"

definition data0 :: pydict where
  "data0 =
     [(''timestamp'', PStr ''2026-01-01T10:00:00''),
      (''agent_path'', PStr ''/home/agent''),
      (''session'',
        PDict [(''ended'', PStr ''2026-01-01T10:00:00''), (''started'', PNone),
               (''duration_seconds'', PNone)]),
      (''sanity_check'',
        PDict [(''status'', PStr ''healthy''), (''checks_passed'', PInt 2),
               (''checks_total'', PInt 2), (''warnings'', PInt 0), (''errors'', PInt 0),
               (''message'', PStr ''Sanity check passed (2/2)'')]),
      (''pending_work'', PList [PStr ''PROJECT_PLAN_x.md'']),
      (''uncommitted_changes'', PList []),
      (''handoff_notes'', PStr ''note''),
      (''session_file'', PStr ''sessions/session_2026-01-01_1000.md''),
      (''mandatory_handoff'', PBool True), (''clean_close'', PBool True),
      (''agent_name'', PStr ''agent'')]"

definition effects0 :: "effect list" where
  "effects0 =
     [Called CallSessionState, Called CallSanityCheck, Called CallPendingWork,
      Called CallUncommitted, Called (CallCreateSessionFile True),
      Mkdir [''home'', ''agent'', ''sessions''],
      WriteFile [''home'', ''agent'', ''sessions'', ''session_2026-01-01_1000.md'']
        \<lparr>doc_session_id = ''session_2026-01-01_1000'', doc_date = ''2026-01-01'',
         doc_aget_version = PStr ''unknown'', doc_agent_name = PStr ''agent'',
         doc_notes = PStr ''note'', doc_pending = PList [PStr ''PROJECT_PLAN_x.md''],
         doc_ended = ''2026-01-01 10:00''\<rparr>]"

text \<open>The housekeeping tool reports more checks passed than checks in total.\<close>

definition overcount_stdout :: string where
  \<open>overcount_stdout =
     ''{"status": "healthy", "summary": {"passed": 5, "total": 3, "warnings": 0, "errors": 0}}''\<close>

definition env_overcount :: env where
  "env_overcount =
     env0\<lparr>run_housekeeping := (\<lambda>script dir. ProcDone 0 overcount_stdout),
          json_loads := (\<lambda>s. if s = overcount_stdout
                              then Some (PDict [(''status'', PStr ''healthy''),
                                                (''summary'', PDict [(''passed'', PInt 5),
                                                                     (''total'', PInt 3),
                                                                     (''warnings'', PInt 0),
                                                                     (''errors'', PInt 0)])])
                              else None)\<rparr>"

text \<open>
  Session-state files that are valid JSON but not what the pipeline expects: a number as
  \<open>started\<close>, a list instead of an object; and a file that is not valid UTF-8.
\<close>

definition env_numeric_started :: env where
  "env_numeric_started =
     env0\<lparr>json_files := (\<lambda>p. if p = agent0 @ [''.aget'', ''session_state.json'']
                              then Loaded (PDict [(''current_session'',
                                                   PDict [(''started'', PInt 1700000000)])])
                              else NoFile)\<rparr>"

definition env_list_state :: env where
  "env_list_state =
     env0\<lparr>json_files := (\<lambda>p. if p = agent0 @ [''.aget'', ''session_state.json'']
                              then Loaded (PList []) else NoFile)\<rparr>"

definition env_undecodable :: env where
  "env_undecodable =
     env0\<lparr>json_files := (\<lambda>p. if p = agent0 @ [''.aget'', ''session_state.json'']
                              then LoadRaises (Exn UnicodeDecodeError ''invalid start byte'')
                              else NoFile)\<rparr>"

text \<open>
  The workspace with an extension module whose entry point is the given hook; one hook
  returns \<open>None\<close>, the other raises ValueError, and neither touches the record.
\<close>

definition ext_path0 :: path where
  "ext_path0 = agent0 @ [''scripts'', ''wind_down_ext.py'']"

definition env_hook :: "hook \<Rightarrow> env" where
  "env_hook h =
     env0\<lparr>path_exists := (\<lambda>p. p = ext_path0 \<or> path_exists env0 p),
          load_extension := (\<lambda>p. ExtModule (Some h))\<rparr>"

definition hook_returns_none :: hook where
  "hook_returns_none data = (data, HookReturns PNone)"

definition hook_raises :: hook where
  "hook_raises data = (data, HookRaises (Exn ValueError ''boom''))"

text \<open>
  Command lines (JSON output; the same with \<open>--verify\<close> and with \<open>--force\<close>), a POSIX
  platform that grants the lock and one that refuses it, lock states (no lock file, the
  lock file of another run, the state after a refused acquisition), and a file system
  without any \<open>.aget\<close> directory.
\<close>

definition args0 :: args where
  "args0 = \<lparr>arg_json = True, arg_pretty = False, arg_dir = None, arg_notes = ''note'',
             arg_skip_sanity = False, arg_force = False, arg_verbose = False,
             arg_verify = False\<rparr>"

definition lock_env0 :: lock_env where
  "lock_env0 =
     \<lparr>open_ok = True, fcntl_flock = Granted, msvcrt_locking = NotImportable,
      time_time = 1000, stat_mtime = 1000, marker_write_ok = True, getpid = 4242,
      now_lock = ''2026-01-01T10:00:00'', unlink_ok = True\<rparr>"

definition lock0 :: lock_state where
  "lock0 = \<lparr>lock_files = (\<lambda>p. None), g_lock_file = None, g_lock_fd = False\<rparr>"

definition lock_taken :: lock_state where
  "lock_taken =
     \<lparr>lock_files = (\<lambda>p. if p = agent0 @ [''.aget'', ''.wind_down.lock'']
                          then Some ''locked by PID 1 at 2026-01-01T09:59:00'' else None),
      g_lock_file = None, g_lock_fd = False\<rparr>"

definition lock_env_held :: lock_env where
  "lock_env_held = lock_env0\<lparr>fcntl_flock := Refused\<rparr>"

definition lock_refused :: lock_state where
  "lock_refused =
     \<lparr>lock_files = (\<lambda>p. if p = agent0 @ [''.aget'', ''.wind_down.lock''] then Some [] else None),
      g_lock_file = Some (agent0 @ [''.aget'', ''.wind_down.lock'']), g_lock_fd = False\<rparr>"


definition args_force :: args where
  "args_force = args0\<lparr>arg_force := True\<rparr>"


text \<open>
  A housekeeping tool that prints a JSON list; the JSON value of \<open>overcount_stdout\<close>; and
  the effects of the forced run in the example workspace.
\<close>

definition env_list_output :: env where
  "env_list_output =
     env0\<lparr>run_housekeeping := (\<lambda>script dir. ProcDone 0 ''[1]''),
          json_loads := (\<lambda>s. if s = ''[1]'' then Some (PList [PInt 1]) else None)\<rparr>"

definition overcount_json :: pydict where
  "overcount_json =
     [(''status'', PStr ''healthy''),
      (''summary'', PDict [(''passed'', PInt 5), (''total'', PInt 3),
                           (''warnings'', PInt 0), (''errors'', PInt 0)])]"

definition force_effects :: "effect list" where
  "force_effects = effects0 @ [Called CallExtensionHook, Stdout (OutJson False data0)]"

section \<open>Properties\<close>

subsection \<open>Sequencing and dicts\<close>

lemma bind_run_Inr:
  assumes "bind_run m f = (Inr y, es)"
  obtains x es1 es2 where "m = (Inr x, es1)" "f x = (Inr y, es2)" "es = es1 @ es2"
  using assms by (auto simp: bind_run_def split: prod.splits sum.splits)

lemma snd_bind_run:
  "snd (bind_run m f) =
     (case fst m of Inl e \<Rightarrow> snd m | Inr x \<Rightarrow> snd m @ snd (f x))"
  by (auto simp: bind_run_def split: prod.splits sum.splits)

lemma dict_item_set [simp]:
  "dict_item (dict_set d k v) k' = (if k' = k then Inr v else dict_item d k')"
  by (simp add: dict_item_def dict_set_def update_conv')

lemma dict_get_set [simp]:
  "dict_get (dict_set d k v) k' dflt = (if k' = k then v else dict_get d k' dflt)"
  by (simp add: dict_get_def dict_set_def update_conv')

lemma set_session_field_other:
  "set_session_field d k v = Inr d' \<Longrightarrow> k' \<noteq> ''session'' \<Longrightarrow> dict_item d' k' = dict_item d k'"
  by (auto simp: set_session_field_def split: sum.splits pyval.splits)

lemma session_timing_other:
  assumes "session_timing E d s = Inr d'" and "k \<noteq> ''session''"
  shows "dict_item d' k = dict_item d k"
  using assms
  by (auto simp: session_timing_def set_session_field_other
           split: sum.splits if_splits pyval.splits option.splits)

lemma initial_data_items:
  "dict_item (initial_data E agent notes) ''mandatory_handoff'' = Inr (PBool False)"
  "dict_item (initial_data E agent notes) ''clean_close'' = Inr (PBool True)"
  "dict_item (initial_data E agent notes) ''session_file'' = Inr PNone"
  by (simp_all add: initial_data_def dict_item_def Let_def)

lemma handoff_trigger_cases:
  assumes "handoff_trigger E agent d = (Inr d', es)"
  shows "\<exists>p. dict_item d ''pending_work'' = Inr p \<and>
           ((\<not> truthy p \<and> d' = d \<and> es = []) \<or>
            (truthy p \<and>
              (d' = dict_set d ''mandatory_handoff'' (PBool True) \<or>
               (\<exists>f. f \<noteq> [] \<and>
                  d' = dict_set (dict_set d ''mandatory_handoff'' (PBool True))
                         ''session_file'' (PStr f)))))"
  using assms unfolding handoff_trigger_def Let_def
  by (fastforce elim!: bind_run_Inr split: if_splits option.splits)

lemma clean_close_rule_other:
  "clean_close_rule d = Inr d' \<Longrightarrow> k \<noteq> ''clean_close'' \<Longrightarrow> dict_item d' k = dict_item d k"
  by (auto simp: clean_close_rule_def split: sum.splits if_splits)

lemma agent_identity_other:
  "agent_identity E agent d = Inr d' \<Longrightarrow> k \<noteq> ''agent_name'' \<Longrightarrow> dict_item d' k = dict_item d k"
  by (auto simp: agent_identity_def split: sum.splits)

subsection \<open>The decision pipeline\<close>

text \<open>
  Claim C1. Whenever get_wind_down_data returns a record, whatever the session state, the
  sanity check and the VCS probe answered, the record's \<open>pending_work\<close> is the list the
  pending-work scanner returned, and \<open>mandatory_handoff\<close> is \<open>True\<close> exactly when that
  list is not empty.
\<close>

theorem mandatory_handoff_iff_pending_work:
  assumes "get_wind_down_data E agent skip notes verbose = (Inr data, es)"
  shows "\<exists>pending. fst (scan_pending_work E agent) = Inr pending
           \<and> dict_item data ''pending_work'' = Inr (PList (map PStr pending))
           \<and> dict_item data ''mandatory_handoff'' = Inr (PBool (pending \<noteq> []))"
proof -
  from assms obtain st d1 sanity pending changes d5 d6 e1 e2 e3 e4 e5 e6 e7 e8 where
    d1: "session_timing E (initial_data E agent notes) st = Inr d1"
    and pend: "scan_pending_work E agent = (Inr pending, e4)"
    and d5: "handoff_trigger E agent
               (dict_set (dict_set (dict_set d1 ''sanity_check'' (PDict sanity))
                  ''pending_work'' (PList (map PStr pending)))
                  ''uncommitted_changes'' (PList (map PStr changes))) = (Inr d5, e6)"
    and d6: "clean_close_rule d5 = Inr d6"
    and d7: "agent_identity E agent d6 = Inr data"
    unfolding get_wind_down_data_def Let_def
    by (auto elim!: bind_run_Inr)
  let ?d4 = "dict_set (dict_set (dict_set d1 ''sanity_check'' (PDict sanity))
                  ''pending_work'' (PList (map PStr pending)))
                  ''uncommitted_changes'' (PList (map PStr changes))"
  have m4: "dict_item ?d4 ''mandatory_handoff'' = Inr (PBool False)"
    using session_timing_other[OF d1, of "''mandatory_handoff''"] by (simp add: initial_data_items)
  have p4: "dict_item ?d4 ''pending_work'' = Inr (PList (map PStr pending))" by simp
  from handoff_trigger_cases[OF d5] p4 m4 have
    "dict_item d5 ''pending_work'' = Inr (PList (map PStr pending))
     \<and> dict_item d5 ''mandatory_handoff'' = Inr (PBool (pending \<noteq> []))"
    by auto
  then have "dict_item data ''pending_work'' = Inr (PList (map PStr pending))
     \<and> dict_item data ''mandatory_handoff'' = Inr (PBool (pending \<noteq> []))"
    using clean_close_rule_other[OF d6] agent_identity_other[OF d7] by simp
  with pend show ?thesis by auto
qed

lemma gather_example:
  "get_wind_down_data env0 agent0 False ''note'' False = (Inr data0, effects0)"
  by code_simp

theorem mandatory_handoff_iff_pending_work_witness:
  "get_wind_down_data env0 agent0 False ''note'' False = (Inr data0, effects0)
   \<and> (\<exists>pending. fst (scan_pending_work env0 agent0) = Inr pending
           \<and> dict_item data0 ''pending_work'' = Inr (PList (map PStr pending))
           \<and> dict_item data0 ''mandatory_handoff'' = Inr (PBool (pending \<noteq> [])))"
  using gather_example mandatory_handoff_iff_pending_work [OF gather_example] by simp

lemma sanity_report_status [simp]:
  "dict_item (sanity_report st p t w e m) ''status'' = Inr st"
  "dict_get (sanity_report st p t w e m) ''status'' dflt = st"
  by (simp_all add: sanity_report_def dict_item_def dict_get_def)

lemma has_status_report [simp]: "has_status (sanity_report st p t w e m)"
  by (simp add: has_status_def)

lemma structured_report_status:
  "structured_report v = Inr r \<Longrightarrow> has_status r"
  by (auto simp: structured_report_def split: sum.splits)

lemma run_sanity_check_status:
  assumes "run_sanity_check E agent verbose = (Inr r, es)"
  shows "has_status r"
  using assms
  by (auto simp: run_sanity_check_def sanity_try_def unknown_report_def error_report_def
        text_report_def Let_def
      split: option.splits sum.splits if_splits proc_result.splits
      dest: structured_report_status)

lemma sanity_stage_status:
  assumes "sanity_stage E agent skip verbose = (Inr r, es)"
  shows "has_status r"
  using assms
  by (auto simp: sanity_stage_def skipped_report_def split: if_splits
      elim!: bind_run_Inr dest: run_sanity_check_status)

lemma clean_close_rule_value:
  assumes "clean_close_rule d = Inr d'"
    and "dict_item d ''sanity_check'' = Inr (PDict sanity)"
    and "dict_item d ''clean_close'' = Inr (PBool True)"
  shows "dict_item d' ''clean_close''
           = Inr (PBool (dict_get sanity ''status'' (PStr ''unknown'') \<noteq> PStr ''error''))"
  using assms by (auto simp: clean_close_rule_def split: sum.splits if_splits)

text \<open>
  Claim C2. Whenever get_wind_down_data returns a record, its \<open>sanity_check\<close> is a report
  with a status, and \<open>clean_close\<close> is \<open>False\<close> exactly when that status is the string
  \<open>error\<close>; the pending work and the VCS answer play no part.
\<close>

theorem clean_close_iff_status_not_error:
  assumes "get_wind_down_data E agent skip notes verbose = (Inr data, es)"
  shows "\<exists>sanity status.
           dict_item data ''sanity_check'' = Inr (PDict sanity)
           \<and> dict_item sanity ''status'' = Inr status
           \<and> dict_item data ''clean_close'' = Inr (PBool (status \<noteq> PStr ''error''))"
proof -
  from assms obtain st d1 sanity pending changes d5 d6 e3 e6 where
    d1: "session_timing E (initial_data E agent notes) st = Inr d1"
    and san: "sanity_stage E agent skip verbose = (Inr sanity, e3)"
    and d5: "handoff_trigger E agent
               (dict_set (dict_set (dict_set d1 ''sanity_check'' (PDict sanity))
                  ''pending_work'' (PList (map PStr pending)))
                  ''uncommitted_changes'' (PList (map PStr changes))) = (Inr d5, e6)"
    and d6: "clean_close_rule d5 = Inr d6"
    and d7: "agent_identity E agent d6 = Inr data"
    unfolding get_wind_down_data_def Let_def
    by (auto elim!: bind_run_Inr)
  from sanity_stage_status[OF san] obtain status where
    shape: "dict_item sanity ''status'' = Inr status"
      "dict_get sanity ''status'' (PStr ''unknown'') = status"
    unfolding has_status_def by (auto split: sum.splits)
  have c1: "dict_item d1 ''clean_close'' = Inr (PBool True)"
    using session_timing_other[OF d1, of "''clean_close''"] by (simp add: initial_data_items)
  from handoff_trigger_cases[OF d5] c1 have
    c5: "dict_item d5 ''clean_close'' = Inr (PBool True)"
    and s5: "dict_item d5 ''sanity_check'' = Inr (PDict sanity)"
    by auto
  from clean_close_rule_value[OF d6 s5 c5] clean_close_rule_other[OF d6, of "''sanity_check''"] s5
  have "dict_item d6 ''clean_close'' = Inr (PBool (status \<noteq> PStr ''error''))"
    and "dict_item d6 ''sanity_check'' = Inr (PDict sanity)"
    by (simp_all add: shape)
  then have "dict_item data ''clean_close'' = Inr (PBool (status \<noteq> PStr ''error''))"
    and "dict_item data ''sanity_check'' = Inr (PDict sanity)"
    using agent_identity_other[OF d7] by simp_all
  then show ?thesis using shape by auto
qed

theorem clean_close_iff_status_not_error_witness:
  "get_wind_down_data env0 agent0 False ''note'' False = (Inr data0, effects0)
   \<and> (\<exists>sanity status.
           dict_item data0 ''sanity_check'' = Inr (PDict sanity)
           \<and> dict_item sanity ''status'' = Inr status
           \<and> dict_item data0 ''clean_close'' = Inr (PBool (status \<noteq> PStr ''error'')))"
  using gather_example clean_close_iff_status_not_error [OF gather_example] by simp

subsection \<open>Effects of the pipeline\<close>

lemma bind_runE:
  assumes "bind_run m f = (r, es)"
  obtains (raised) e where "m = (Inl e, es)" "r = Inl e"
    | (continued) x es1 es2 where "m = (Inr x, es1)" "f x = (r, es2)" "es = es1 @ es2"
  using assms by (auto simp: bind_run_def split: prod.splits sum.splits)

lemma list_all_bind_run:
  assumes "list_all Q (snd m)" and "\<And>x. list_all Q (snd (f x))"
  shows "list_all Q (snd (bind_run m f))"
  using assms by (auto simp: snd_bind_run split: sum.splits)

lemma write_session_effects: "list_all gather_effect (snd (write_session E agent d))"
  by (auto simp: write_session_def Let_def split: sum.splits option.splits)

lemma create_session_file_effects:
  "list_all gather_effect (snd (create_session_file E agent d True))"
  unfolding create_session_file_def Let_def
  by (intro list_all_bind_run) (auto simp: write_session_effects snd_bind_run split: option.splits)

lemma run_sanity_check_effects:
  "snd (run_sanity_check E agent verbose) = Called CallSanityCheck # rest
     \<Longrightarrow> list_all (\<lambda>e. \<exists>s. e = Stderr s) rest"
  by (auto simp: run_sanity_check_def log_diagnostic_def split: option.splits sum.splits if_splits)

lemma sanity_stage_effects:
  "list_all (\<lambda>e. e = Called CallSanityCheck \<or> (\<exists>s. e = Stderr s))
     (snd (sanity_stage E agent skip verbose))"
  by (auto simp: sanity_stage_def snd_bind_run run_sanity_check_def log_diagnostic_def
      split: option.splits sum.splits if_splits)

lemma collector_effects [simp]:
  "snd (get_session_state E agent) = [Called CallSessionState]"
  "snd (scan_pending_work E agent) = [Called CallPendingWork]"
  "snd (get_uncommitted_changes E agent) = [Called CallUncommitted]"
  by (simp_all add: get_session_state_def scan_pending_work_def get_uncommitted_changes_def Let_def)

lemma handoff_trigger_effects:
  "list_all gather_effect (snd (handoff_trigger E agent d))"
  unfolding handoff_trigger_def Let_def
  by (intro list_all_bind_run) (auto simp: snd_bind_run create_session_file_effects split: sum.splits option.splits)

lemma handoff_trigger_idle:
  assumes "handoff_trigger E agent d = (r, es)" and "dict_item d ''pending_work'' = Inr p"
    and "\<not> truthy p"
  shows "es = [] \<and> r = Inr d"
  using assms by (auto simp: handoff_trigger_def bind_run_def)

lemma list_all_weaken: "list_all P xs \<Longrightarrow> (\<And>x. P x \<Longrightarrow> Q x) \<Longrightarrow> list_all Q xs"
  by (auto simp: list_all_iff)

lemma get_wind_down_data_effects:
  "list_all gather_effect (snd (get_wind_down_data E agent skip hnotes verbose))"
  unfolding get_wind_down_data_def Let_def
  apply (intro list_all_bind_run)
  apply (simp_all add: handoff_trigger_effects)
  apply (rule list_all_weaken[OF sanity_stage_effects])
  apply auto
  done


lemma list_ex_bind_run:
  assumes "list_ex P (snd (bind_run m f))"
  obtains "list_ex P (snd m)" | x where "fst m = Inr x" "list_ex P (snd (f x))"
  using assms by (auto simp: snd_bind_run split: sum.splits)

lemma not_writer_sanity:
  "\<not> list_ex writer_effect (snd (sanity_stage E agent skip verbose))"
  using sanity_stage_effects[of E agent skip verbose]
  by (auto simp: list_all_iff list_ex_iff)

lemma handoff_trigger_session_file:
  assumes "handoff_trigger E agent d = (Inr d', es)"
    and "dict_item d ''session_file'' = Inr PNone"
    and "dict_item d' ''session_file'' \<noteq> Inr PNone"
  shows "dict_item d' ''mandatory_handoff'' = Inr (PBool True)"
  using handoff_trigger_cases[OF assms(1)] assms(2,3) by auto

text \<open>
  Claim C10. get_wind_down_data never calls create_session_file with \<open>mandatory=False\<close>;
  whatever the outcome, the handoff writer runs (is called, makes the directory or writes
  the file) only when the pending-work scanner returned a non-empty list; and in every
  record returned, \<open>session_file\<close> is set only if \<open>mandatory_handoff\<close> is \<open>True\<close>.
\<close>

theorem session_file_only_on_mandatory_handoff:
  assumes "get_wind_down_data E agent skip hnotes verbose = (r, es)"
  shows "Called (CallCreateSessionFile False) \<notin> set es
         \<and> (list_ex writer_effect es \<longrightarrow>
              (\<exists>pending. fst (scan_pending_work E agent) = Inr pending \<and> pending \<noteq> []))
         \<and> (\<forall>data. r = Inr data \<longrightarrow> dict_item data ''session_file'' \<noteq> Inr PNone \<longrightarrow>
              dict_item data ''mandatory_handoff'' = Inr (PBool True))"
proof (intro conjI allI impI)
  from get_wind_down_data_effects[of E agent skip hnotes verbose] assms
  have "list_all gather_effect es" by simp
  then show "Called (CallCreateSessionFile False) \<notin> set es"
    by (auto simp: list_all_iff)
next
  assume "list_ex writer_effect es"
  with assms
  have "list_ex writer_effect (snd (get_wind_down_data E agent skip hnotes verbose))" by simp
  then show "\<exists>pending. fst (scan_pending_work E agent) = Inr pending \<and> pending \<noteq> []"
    unfolding get_wind_down_data_def Let_def
  proof (elim list_ex_bind_run, goal_cases)
    case (6 st d1 sanity pending changes)
    then show ?case
      by (cases "handoff_trigger E agent
                   (dict_set (dict_set (dict_set d1 ''sanity_check'' (PDict sanity))
                      ''pending_work'' (PList (map PStr pending)))
                      ''uncommitted_changes'' (PList (map PStr changes)))";
          cases "pending = []")
         (auto dest: handoff_trigger_idle [where p = "PList (map PStr pending)"])
  qed (simp_all add: not_writer_sanity)
next
  fix data assume "r = Inr data" and sf: "dict_item data ''session_file'' \<noteq> Inr PNone"
  with assms have g: "get_wind_down_data E agent skip hnotes verbose = (Inr data, es)" by simp
  from g obtain st d1 sanity pending changes d5 d6 e6 where
    d1: "session_timing E (initial_data E agent hnotes) st = Inr d1"
    and d5: "handoff_trigger E agent
               (dict_set (dict_set (dict_set d1 ''sanity_check'' (PDict sanity))
                  ''pending_work'' (PList (map PStr pending)))
                  ''uncommitted_changes'' (PList (map PStr changes))) = (Inr d5, e6)"
    and d6: "clean_close_rule d5 = Inr d6"
    and d7: "agent_identity E agent d6 = Inr data"
    unfolding get_wind_down_data_def Let_def
    by (auto elim!: bind_run_Inr)
  have s1: "dict_item d1 ''session_file'' = Inr PNone"
    using session_timing_other[OF d1, of "''session_file''"] by (simp add: initial_data_items)
  have same: "dict_item data ''session_file'' = dict_item d5 ''session_file''"
    "dict_item data ''mandatory_handoff'' = dict_item d5 ''mandatory_handoff''"
    using clean_close_rule_other[OF d6] agent_identity_other[OF d7] by simp_all
  from handoff_trigger_session_file[OF d5] s1 sf same
  show "dict_item data ''mandatory_handoff'' = Inr (PBool True)" by simp
qed


theorem session_file_only_on_mandatory_handoff_witness:
  "get_wind_down_data env0 agent0 False ''note'' False = (Inr data0, effects0)
   \<and> list_ex writer_effect effects0
   \<and> dict_item data0 ''session_file'' \<noteq> Inr PNone
   \<and> Called (CallCreateSessionFile False) \<notin> set effects0
   \<and> (\<exists>pending. fst (scan_pending_work env0 agent0) = Inr pending \<and> pending \<noteq> [])
   \<and> dict_item data0 ''mandatory_handoff'' = Inr (PBool True)"
proof -
  have w: "list_ex writer_effect effects0" by (simp add: effects0_def)
  have f: "dict_item data0 ''session_file'' \<noteq> Inr PNone" by (simp add: data0_def dict_item_def)
  from session_file_only_on_mandatory_handoff [OF gather_example] w f gather_example
  show ?thesis by blast
qed

subsection \<open>Sanity check\<close>

lemma occurrences_Nil: "sub \<noteq> [] \<Longrightarrow> occurrences sub [] = 0"
  by (simp add: occurrences_def)

lemma occurrences_Cons:
  "occurrences sub (x # xs) = (if prefix sub (x # xs) then 1 else 0) + occurrences sub xs"
  by (simp add: occurrences_def)

lemma occurrences_skip:
  assumes "sub \<noteq> []" and "hd sub \<notin> set u"
  shows "occurrences sub (u @ r) = occurrences sub r"
  using assms
proof (induction u)
  case Nil
  then show ?case by simp
next
  case (Cons a u)
  then have "\<not> prefix sub (a # u @ r)"
    by (cases sub) auto
  with Cons show ?case by (simp add: occurrences_Cons)
qed

lemma py_count_occurrences:
  assumes "sub \<noteq> []" and "hd sub \<notin> set (tl sub)"
  shows "py_count sub s = occurrences sub s"
  using assms
proof (induction sub s rule: py_count.induct)
  case (1 sub s)
  show ?case
  proof (cases "s = []")
    case True
    with 1 show ?thesis by (simp add: py_count.simps occurrences_Nil)
  next
    case ne: False
    show ?thesis
    proof (cases "prefix sub s")
      case True
      then obtain r where s: "s = sub @ r" by (auto elim: prefixE)
      from 1 ne True have "py_count sub s = Suc (occurrences sub r)"
        unfolding s by (subst py_count.simps) simp
      moreover from 1(3) obtain h t where sub: "sub = h # t" by (cases sub) auto
      with 1(4) have "occurrences sub (t @ r) = occurrences sub r"
        by (intro occurrences_skip) auto
      then have "occurrences sub s = Suc (occurrences sub r)"
        by (simp add: s sub occurrences_Cons)
      ultimately show ?thesis by simp
    next
      case False
      from ne obtain x xs where s: "s = x # xs" by (cases s) auto
      from 1 ne False show ?thesis
        unfolding s by (subst py_count.simps) (simp add: occurrences_Cons)
    qed
  qed
qed

lemma text_report_markers:
  "dict_item (text_report out) ''checks_passed'' = Inr (PInt (int (success_markers out)))"
  "dict_item (text_report out) ''status''
     = Inr (PStr (if failure_markers out = 0 then ''healthy'' else ''warning''))"
  by (simp_all add: text_report_def sanity_report_def dict_item_def Let_def
        success_markers_def failure_markers_def py_count_occurrences)

text \<open>
  Claim C8. When the housekeeping script ran and its output is empty or is not JSON, the
  report of run_sanity_check has \<open>checks_passed\<close> equal to the number of success markers
  in the output, and its status is \<open>healthy\<close> if the output has no failure marker and
  \<open>warning\<close> if it has at least one.
\<close>

theorem text_fallback_counts_markers:
  assumes "find (path_exists E) (script_locations E agent) = Some script"
    and "run_housekeeping E script agent = ProcDone rc out"
    and "out = [] \<or> json_loads E out = None"
  shows "\<exists>r. run_sanity_check E agent verbose = (Inr r, [Called CallSanityCheck])
           \<and> dict_item r ''checks_passed'' = Inr (PInt (int (success_markers out)))
           \<and> dict_item r ''status''
               = Inr (PStr (if failure_markers out = 0 then ''healthy'' else ''warning''))"
proof -
  from assms have "run_sanity_check E agent verbose = (Inr (text_report out), [Called CallSanityCheck])"
    by (auto simp: run_sanity_check_def sanity_try_def)
  then show ?thesis using text_report_markers[of out] by simp
qed

theorem text_fallback_counts_markers_witness:
  "find (path_exists env0) (script_locations env0 agent0)
     = Some (agent0 @ [''scripts'', ''aget_housekeeping_protocol.py''])
   \<and> run_housekeeping env0 (agent0 @ [''scripts'', ''aget_housekeeping_protocol.py'']) agent0
       = ProcDone 0 ''[+] tests PASS''
   \<and> json_loads env0 ''[+] tests PASS'' = None
   \<and> success_markers ''[+] tests PASS'' = 2 \<and> failure_markers ''[+] tests PASS'' = 0
   \<and> (\<exists>r. run_sanity_check env0 agent0 False = (Inr r, [Called CallSanityCheck])
           \<and> dict_item r ''checks_passed'' = Inr (PInt 2)
           \<and> dict_item r ''status'' = Inr (PStr ''healthy''))"
proof -
  have a: "find (path_exists env0) (script_locations env0 agent0)
             = Some (agent0 @ [''scripts'', ''aget_housekeeping_protocol.py''])"
    by (simp add: env0_def script_locations_def)
  have b: "run_housekeeping env0 (agent0 @ [''scripts'', ''aget_housekeeping_protocol.py'']) agent0
             = ProcDone 0 ''[+] tests PASS''"
    by (simp add: env0_def)
  have c: "''[+] tests PASS'' = [] \<or> json_loads env0 ''[+] tests PASS'' = None"
    by (simp add: env0_def)
  have s: "success_markers ''[+] tests PASS'' = 2" by code_simp
  have f: "failure_markers ''[+] tests PASS'' = 0" by code_simp
  from text_fallback_counts_markers [OF a b c, of False] a b c s f
  show ?thesis by simp
qed


lemma counts_ok_report [simp]:
  "counts_ok (sanity_report st (PInt p) (PInt t) (PInt w) (PInt e) m)
     = (0 \<le> p \<and> 0 \<le> t \<and> 0 \<le> w \<and> 0 \<le> e \<and> p \<le> t)"
  by (simp add: counts_ok_def sanity_report_def dict_item_def)

lemma counts_ok_fixed [simp]:
  "counts_ok unknown_report" "counts_ok skipped_report" "counts_ok (error_report e)"
  "counts_ok (text_report out)"
  by (simp_all add: unknown_report_def skipped_report_def error_report_def text_report_def Let_def)

lemma structured_report_verbatim:
  assumes "structured_report v = Inr r"
  shows "\<exists>d s. v = PDict d \<and> dict_get d ''summary'' (PDict []) = PDict s
           \<and> r = sanity_report (dict_get d ''status'' (PStr ''unknown''))
                   (dict_get s ''passed'' (PInt 0)) (dict_get s ''total'' (PInt 0))
                   (dict_get s ''warnings'' (PInt 0)) (dict_get s ''errors'' (PInt 0)) []"
proof -
  from assms obtain d where v: "v = PDict d"
    by (cases v) (auto simp: structured_report_def)
  from assms v obtain s where s: "dict_get d ''summary'' (PDict []) = PDict s"
    by (cases "dict_get d ''summary'' (PDict [])")
       (auto simp: structured_report_def summary_get_def)
  from assms show ?thesis
    by (simp add: v s structured_report_def summary_get_def)
qed

lemma run_sanity_check_by_path:
  "fst (run_sanity_check E agent verbose) = Inr r \<Longrightarrow>
     (case structured_output E agent of
        None \<Rightarrow> counts_ok r
      | Some v \<Rightarrow> (case structured_report v of Inl e \<Rightarrow> r = error_report e | Inr r' \<Rightarrow> r = r'))"
  by (auto simp: run_sanity_check_def sanity_try_def structured_output_def
      split: option.splits proc_result.splits sum.splits if_splits)

text \<open>
  Claim C7, as amended. On the skip path and whenever the report is not built from
  structured output (no script, the script could not be run, empty or unparsable output)
  the four counts are non-negative integers with \<open>checks_total\<close> at least
  \<open>checks_passed\<close>. On the structured-output path, when the tool's JSON is an object
  with an object (or no) \<open>summary\<close>, the report is the tool's own status and the values
  of its \<open>summary\<close> (0 where a key is missing), copied as they are; when the JSON has
  another shape the report is the error report, whose counts are in range.
\<close>

theorem sanity_counts_unless_structured:
  assumes "sanity_stage E agent skip verbose = (Inr r, es)"
  shows "(skip \<or> structured_output E agent = None \<longrightarrow> counts_ok r)
         \<and> (\<forall>d s. \<not> skip \<and> structured_output E agent = Some (PDict d)
                \<and> dict_get d ''summary'' (PDict []) = PDict s \<longrightarrow>
              r = sanity_report (dict_get d ''status'' (PStr ''unknown''))
                    (dict_get s ''passed'' (PInt 0)) (dict_get s ''total'' (PInt 0))
                    (dict_get s ''warnings'' (PInt 0)) (dict_get s ''errors'' (PInt 0)) [])
         \<and> (\<forall>v e. \<not> skip \<and> structured_output E agent = Some v
                \<and> structured_report v = Inl e \<longrightarrow>
              r = error_report e \<and> counts_ok r)"
proof (cases skip)
  case True
  with assms show ?thesis by (simp add: sanity_stage_def)
next
  case False
  with assms have run: "fst (run_sanity_check E agent verbose) = Inr r"
    by (auto simp: sanity_stage_def elim!: bind_run_Inr)
  note p = run_sanity_check_by_path[OF run]
  show ?thesis
  proof (intro conjI allI impI)
    assume "skip \<or> structured_output E agent = None"
    with False p show "counts_ok r" by simp
  next
    fix d s
    assume h: "\<not> skip \<and> structured_output E agent = Some (PDict d)
                \<and> dict_get d ''summary'' (PDict []) = PDict s"
    then have "structured_report (PDict d)
        = Inr (sanity_report (dict_get d ''status'' (PStr ''unknown''))
                    (dict_get s ''passed'' (PInt 0)) (dict_get s ''total'' (PInt 0))
                    (dict_get s ''warnings'' (PInt 0)) (dict_get s ''errors'' (PInt 0)) [])"
      by (simp add: structured_report_def summary_get_def)
    with h p show "r = sanity_report (dict_get d ''status'' (PStr ''unknown''))
                    (dict_get s ''passed'' (PInt 0)) (dict_get s ''total'' (PInt 0))
                    (dict_get s ''warnings'' (PInt 0)) (dict_get s ''errors'' (PInt 0)) []"
      by simp
  next
    fix v e
    assume h: "\<not> skip \<and> structured_output E agent = Some v \<and> structured_report v = Inl e"
    with p show "r = error_report e" by simp
    then show "counts_ok r" by simp
  qed
qed


lemma sanity_example:
  "sanity_stage env0 agent0 False False
     = (Inr (sanity_report (PStr ''healthy'') (PInt 2) (PInt 2) (PInt 0) (PInt 0)
               ''Sanity check passed (2/2)''),
        [Called CallSanityCheck])"
  by code_simp

lemma sanity_overcount_example:
  "sanity_stage env_overcount agent0 False False
     = (Inr (sanity_report (PStr ''healthy'') (PInt 5) (PInt 3) (PInt 0) (PInt 0) []),
        [Called CallSanityCheck])"
  by code_simp

lemma sanity_list_example:
  "sanity_stage env_list_output agent0 False False
     = (Inr (error_report (Exn AttributeError ''object has no attribute get'')),
        [Called CallSanityCheck])"
  by code_simp

theorem sanity_counts_unless_structured_witness:
  "sanity_stage env0 agent0 False False
     = (Inr (sanity_report (PStr ''healthy'') (PInt 2) (PInt 2) (PInt 0) (PInt 0)
               ''Sanity check passed (2/2)''),
        [Called CallSanityCheck])
   \<and> structured_output env0 agent0 = None
   \<and> counts_ok (sanity_report (PStr ''healthy'') (PInt 2) (PInt 2) (PInt 0) (PInt 0)
                  ''Sanity check passed (2/2)'')
   \<and> structured_output env_overcount agent0 = Some (PDict overcount_json)
   \<and> dict_get overcount_json ''summary'' (PDict [])
        = PDict [(''passed'', PInt 5), (''total'', PInt 3), (''warnings'', PInt 0),
                 (''errors'', PInt 0)]
   \<and> fst (sanity_stage env_overcount agent0 False False)
        = Inr (sanity_report (PStr ''healthy'') (PInt 5) (PInt 3) (PInt 0) (PInt 0) [])
   \<and> structured_output env_list_output agent0 = Some (PList [PInt 1])
   \<and> structured_report (PList [PInt 1]) = Inl (Exn AttributeError ''object has no attribute get'')
   \<and> fst (sanity_stage env_list_output agent0 False False)
        = Inr (error_report (Exn AttributeError ''object has no attribute get''))
   \<and> counts_ok (error_report (Exn AttributeError ''object has no attribute get''))"
proof -
  have a: "structured_output env0 agent0 = None" by code_simp
  have b: "structured_output env_overcount agent0 = Some (PDict overcount_json)" by code_simp
  have b': "dict_get overcount_json ''summary'' (PDict [])
        = PDict [(''passed'', PInt 5), (''total'', PInt 3), (''warnings'', PInt 0),
                 (''errors'', PInt 0)]" by code_simp
  have c: "structured_output env_list_output agent0 = Some (PList [PInt 1])" by code_simp
  have c': "structured_report (PList [PInt 1])
              = Inl (Exn AttributeError ''object has no attribute get'')"
    by (simp add: structured_report_def)
  from sanity_counts_unless_structured [OF sanity_example] a
  have w1: "counts_ok (sanity_report (PStr ''healthy'') (PInt 2) (PInt 2) (PInt 0) (PInt 0)
                  ''Sanity check passed (2/2)'')" by blast
  from sanity_counts_unless_structured [OF sanity_list_example] c c'
  have w3: "counts_ok (error_report (Exn AttributeError ''object has no attribute get''))"
    by blast
  from sanity_example sanity_overcount_example sanity_list_example a b b' c c' w1 w3
  show ?thesis by simp
qed

text \<open>
  Claim C7 as stated fails: a tool that prints a summary with 5 passed of 3 in total
  gets exactly that into the report.
\<close>

theorem sanity_counts_counterexample:
  "run_sanity_check env_overcount agent0 False
     = (Inr (sanity_report (PStr ''healthy'') (PInt 5) (PInt 3) (PInt 0) (PInt 0) []),
        [Called CallSanityCheck])
   \<and> \<not> counts_ok (sanity_report (PStr ''healthy'') (PInt 5) (PInt 3) (PInt 0) (PInt 0) [])"
proof -
  have "run_sanity_check env_overcount agent0 False
     = (Inr (sanity_report (PStr ''healthy'') (PInt 5) (PInt 3) (PInt 0) (PInt 0) []),
        [Called CallSanityCheck])"
    by code_simp
  then show ?thesis by simp
qed

subsection \<open>Session state\<close>

lemma load_json_file_default:
  "json_files E p = NoFile \<Longrightarrow> load_json_file E p dflt = Inr dflt"
  "json_files E p = LoadRaises e \<Longrightarrow> catches [JSONDecodeError, OSError] e
     \<Longrightarrow> load_json_file E p dflt = Inr dflt"
  by (simp_all add: load_json_file_def)

text \<open>
  Claim C6 (the code does not do what the claim says). With a number as \<open>started\<close> the
  pipeline ends in the TypeError of \<open>fromisoformat\<close>, which the \<open>except ValueError\<close> does
  not catch; with a JSON list as session state it ends in an AttributeError; and a file
  that is not valid UTF-8 makes the reader itself raise UnicodeDecodeError.
\<close>

theorem session_state_reader_raises:
  "get_wind_down_data env_numeric_started agent0 False [] False
     = (Inl (Exn TypeError ''fromisoformat: argument must be str''), [Called CallSessionState])
   \<and> get_wind_down_data env_list_state agent0 False [] False
     = (Inl (Exn AttributeError ''object has no attribute get''), [Called CallSessionState])
   \<and> get_session_state env_undecodable agent0
     = (Inl (Exn UnicodeDecodeError ''invalid start byte''), [Called CallSessionState])"
  by code_simp

subsection \<open>Extension hook\<close>

text \<open>
  Claim C5, as amended. When the entry point returns a value that is not a dict, or raises
  an exception that \<open>except Exception\<close> catches, call_extension_hook does not raise and
  returns the record it passed to the hook (the same object, in the state the hook left
  it). The warning line is printed whenever the hook raised; for a non-dict return value
  a diagnostic line is printed in verbose mode only.
\<close>

theorem extension_failure_keeps_record:
  assumes "path_exists E (agent @ [''scripts'', ''wind_down_ext.py''])"
    and "load_extension E (agent @ [''scripts'', ''wind_down_ext.py''])
           = ExtModule (Some post_wind_down)"
    and "post_wind_down data = (data', ending)"
  shows "(\<forall>v. ending = HookReturns v \<longrightarrow> (\<forall>d. v \<noteq> PDict d) \<longrightarrow>
            call_extension_hook E agent data verbose
              = (Inr data',
                 Called CallExtensionHook
                   # (if verbose then [Stderr ''Extension hook returned non-dict, ignoring'']
                      else [])))
         \<and> (\<forall>e. ending = HookRaises e \<longrightarrow> is_Exception e \<longrightarrow>
            call_extension_hook E agent data verbose
              = (Inr data', [Called CallExtensionHook, Stderr (hook_warning e)]))"
  using assms
  by (auto simp: call_extension_hook_def Let_def log_diagnostic_def split: pyval.splits)

theorem extension_failure_keeps_record_witness:
  "path_exists (env_hook hook_returns_none) ext_path0
   \<and> load_extension (env_hook hook_returns_none) ext_path0 = ExtModule (Some hook_returns_none)
   \<and> hook_returns_none data0 = (data0, HookReturns PNone)
   \<and> call_extension_hook (env_hook hook_returns_none) agent0 data0 True
       = (Inr data0,
          [Called CallExtensionHook, Stderr ''Extension hook returned non-dict, ignoring''])
   \<and> path_exists (env_hook hook_raises) ext_path0
   \<and> load_extension (env_hook hook_raises) ext_path0 = ExtModule (Some hook_raises)
   \<and> hook_raises data0 = (data0, HookRaises (Exn ValueError ''boom''))
   \<and> is_Exception (Exn ValueError ''boom'')
   \<and> call_extension_hook (env_hook hook_raises) agent0 data0 False
       = (Inr data0,
          [Called CallExtensionHook, Stderr ''Warning: Extension hook failed: boom''])"
proof -
  have p: "ext_path0 = agent0 @ [''scripts'', ''wind_down_ext.py'']" by (simp add: ext_path0_def)
  have a1: "path_exists (env_hook hook_returns_none) (agent0 @ [''scripts'', ''wind_down_ext.py''])"
    and a2: "load_extension (env_hook hook_returns_none) (agent0 @ [''scripts'', ''wind_down_ext.py''])
               = ExtModule (Some hook_returns_none)"
    and a3: "hook_returns_none data0 = (data0, HookReturns PNone)"
    by (simp_all add: env_hook_def ext_path0_def hook_returns_none_def)
  have b1: "path_exists (env_hook hook_raises) (agent0 @ [''scripts'', ''wind_down_ext.py''])"
    and b2: "load_extension (env_hook hook_raises) (agent0 @ [''scripts'', ''wind_down_ext.py''])
               = ExtModule (Some hook_raises)"
    and b3: "hook_raises data0 = (data0, HookRaises (Exn ValueError ''boom''))"
    and b4: "is_Exception (Exn ValueError ''boom'')"
    by (simp_all add: env_hook_def ext_path0_def hook_raises_def is_Exception_def)
  from extension_failure_keeps_record [OF a1 a2 a3, of True]
       extension_failure_keeps_record [OF b1 b2 b3, of False]
       a1 a2 a3 b1 b2 b3 b4
  show ?thesis by (simp add: p hook_warning_def)
qed

text \<open>
  Claim C5 as stated fails: without \<open>--verbose\<close>, a hook that returns \<open>None\<close> is ignored
  without any warning.
\<close>

theorem extension_non_dict_silent_counterexample:
  "call_extension_hook (env_hook hook_returns_none) agent0 data0 False
     = (Inr data0, [Called CallExtensionHook])"
  by (simp add: call_extension_hook_def env_hook_def ext_path0_def hook_returns_none_def
        log_diagnostic_def)

subsection \<open>Main: exit codes and the guard\<close>

lemma fst_bind_run:
  "fst (bind_run m f) = (case fst m of Inl e \<Rightarrow> Inl e | Inr x \<Rightarrow> fst (f x))"
  by (auto simp: bind_run_def split: prod.splits sum.splits)

lemma exit_code_eq:
  "dict_item data ''sanity_check'' = Inr (PDict sanity) \<Longrightarrow>
     exit_code data = Inr (status_exit_code (dict_get sanity ''status'' (PStr ''unknown'')))"
  by (simp add: exit_code_def bind_exn_def status_exit_code_def)

lemma exit_code_Inr:
  assumes "exit_code data = Inr code"
  shows "\<exists>sanity. dict_item data ''sanity_check'' = Inr (PDict sanity)
           \<and> code = status_exit_code (dict_get sanity ''status'' (PStr ''unknown''))"
proof -
  from assms obtain v where v: "dict_item data ''sanity_check'' = Inr v"
    by (cases "dict_item data ''sanity_check''") (auto simp: exit_code_def bind_exn_def)
  with assms obtain sanity where "v = PDict sanity"
    by (cases v) (auto simp: exit_code_def bind_exn_def)
  with v assms exit_code_eq[of data sanity] show ?thesis by auto
qed

lemma exit_code_range: "exit_code data = Inr code \<Longrightarrow> code \<in> {0, 1, 2}"
  by (auto dest!: exit_code_Inr simp: status_exit_code_def split: if_splits)

lemma gathered_clean_close:
  assumes "get_wind_down_data E agent skip hnotes verbose = (Inr data, es)"
  shows "\<exists>v. dict_item data ''clean_close'' = Inr v"
proof -
  from assms obtain st d1 sanity pending changes d5 d6 e6 where
    d1: "session_timing E (initial_data E agent hnotes) st = Inr d1"
    and d5: "handoff_trigger E agent
               (dict_set (dict_set (dict_set d1 ''sanity_check'' (PDict sanity))
                  ''pending_work'' (PList (map PStr pending)))
                  ''uncommitted_changes'' (PList (map PStr changes))) = (Inr d5, e6)"
    and d6: "clean_close_rule d5 = Inr d6"
    and d7: "agent_identity E agent d6 = Inr data"
    unfolding get_wind_down_data_def Let_def
    by (auto elim!: bind_run_Inr)
  have "dict_item d1 ''clean_close'' = Inr (PBool True)"
    using session_timing_other[OF d1, of "''clean_close''"] by (simp add: initial_data_items)
  with handoff_trigger_cases[OF d5] have "dict_item d5 ''clean_close'' = Inr (PBool True)"
    by auto
  with d6 have "\<exists>v. dict_item d6 ''clean_close'' = Inr v"
    by (auto simp: clean_close_rule_def split: sum.splits if_splits)
  with agent_identity_other[OF d7, of "''clean_close''"] show ?thesis by simp
qed

lemma log_clean_close_ok:
  "dict_item data ''clean_close'' = Inr v \<Longrightarrow> fst (log_clean_close E verbose data) = Inr ()"
  by (simp add: log_clean_close_def)

lemma wind_down_pass_outcome:
  "fst (wind_down_pass E a agent) =
     (case reported_record E a agent of
        Inl e \<Rightarrow> Inl e
      | Inr data \<Rightarrow>
          (case fst (print_output E a data) of Inl e \<Rightarrow> Inl e | Inr u \<Rightarrow> exit_code data))"
proof (cases "get_wind_down_data E agent (arg_skip_sanity a) (arg_notes a) (arg_verbose a)")
  case (Pair r es)
  show ?thesis
  proof (cases r)
    case (Inl e)
    with Pair show ?thesis
      by (simp add: wind_down_pass_def reported_record_def fst_bind_run)
  next
    case (Inr data)
    with Pair gathered_clean_close obtain v where "dict_item data ''clean_close'' = Inr v"
      by blast
    then have "fst (log_clean_close E (arg_verbose a) data) = Inr ()"
      by (rule log_clean_close_ok)
    with Pair Inr show ?thesis
      by (simp add: wind_down_pass_def reported_record_def fst_bind_run split: sum.splits)
  qed
qed

lemma call_extension_hook_effects:
  "list_all (\<lambda>e. e = Called CallExtensionHook \<or> (\<exists>s. e = Stderr s))
     (snd (call_extension_hook E agent data verbose))"
  by (auto simp: call_extension_hook_def Let_def log_diagnostic_def
      split: ext_load.splits option.splits prod.splits hook_end.splits pyval.splits)

lemma print_output_effects:
  "list_all (\<lambda>e. \<exists>t. e = Stdout t) (snd (print_output E a data))"
  by (auto simp: print_output_def split: sum.splits)

lemma log_effects:
  "list_all (\<lambda>e. \<exists>s. e = Stderr s) (log_diagnostic verbose msg)"
  "list_all (\<lambda>e. \<exists>s. e = Stderr s) (snd (log_clean_close E verbose data))"
  by (auto simp: log_diagnostic_def log_clean_close_def split: sum.splits)

lemma wind_down_pass_effects:
  "list_all (\<lambda>e. \<not> guard_effect e) (snd (wind_down_pass E a agent))"
  unfolding wind_down_pass_def
  apply (intro list_all_bind_run)
         apply simp_all
        apply (rule list_all_weaken[OF log_effects(1)], auto)[1]
       apply (rule list_all_weaken[OF get_wind_down_data_effects], case_tac x, auto)[1]
       apply (case_tac x1, auto)[1]
      apply (rule list_all_weaken[OF log_effects(2)], auto)[1]
     apply (rule list_all_weaken[OF call_extension_hook_effects], auto)[1]
    apply (rule list_all_weaken[OF log_effects(1)], auto)[1]
   apply (rule list_all_weaken[OF print_output_effects], auto)[1]
  apply (rule list_all_weaken[OF log_effects(1)], auto)[1]
  done



lemma main_blocked:
  assumes "\<not> arg_verify a" and "find_agent_root E (arg_dir a) = Some agent"
    and "\<not> arg_force a" and "acquire_lock LE agent L = (False, L')"
  shows "main E LE a L =
           ((Inr 4,
             log_diagnostic (arg_verbose a) ''Starting wind_down protocol''
             @ [Called CallAcquireLock]
             @ (if arg_json a then [Stdout (OutJson False (error_record blocked_msg))]
                else [Stderr blocked_msg])),
            L')"
  using assms by (simp add: main_def)

lemma main_forced:
  assumes "\<not> arg_verify a" and "find_agent_root E (arg_dir a) = Some agent"
    and "arg_force a"
  shows "main E LE a L =
           ((fst (wind_down_pass E a agent),
             log_diagnostic (arg_verbose a) ''Starting wind_down protocol''
             @ snd (wind_down_pass E a agent)),
            L)"
  using assms by (simp add: main_def split: prod.splits)



lemma no_work_in_log [simp]:
  "\<not> list_ex work_effect (log_diagnostic verbose msg)"
  by (simp add: log_diagnostic_def)

text \<open>
  Claim C4. When acquire_lock fails and \<open>--force\<close> was not given, main prints the
  BLOCKED message and exits 4; it calls no collector, no handoff writer and no extension
  hook and writes no session file.
\<close>

theorem guard_blocked_is_hard_stop:
  assumes "\<not> arg_verify a" and "find_agent_root E (arg_dir a) = Some agent"
    and "\<not> arg_force a" and "acquire_lock LE agent L = (False, L')"
  shows "main E LE a L =
           ((Inr 4,
             log_diagnostic (arg_verbose a) ''Starting wind_down protocol''
             @ [Called CallAcquireLock]
             @ (if arg_json a then [Stdout (OutJson False (error_record blocked_msg))]
                else [Stderr blocked_msg])),
            L')
         \<and> \<not> list_ex work_effect (snd (fst (main E LE a L)))"
  using assms by (simp add: main_blocked)

lemma verify_mode_effects:
  "list_all (\<lambda>e. \<exists>t. e = Stdout t) (snd (verify_mode E))"
  by (auto simp: verify_mode_def Let_def split: option.splits)

lemma verify_mode_codes: "fst (verify_mode E) = Inr 0 \<or> fst (verify_mode E) = Inr 1"
  by (auto simp: verify_mode_def Let_def split: option.splits)

lemma wind_down_pass_codes: "fst (wind_down_pass E a agent) \<noteq> Inr 4"
  by (auto simp: wind_down_pass_outcome split: sum.splits dest: exit_code_range)

lemma main_force_eq:
  assumes "arg_force a"
  shows "main E LE a L =
           ((if arg_verify a then verify_mode E
             else (case find_agent_root E (arg_dir a) of
                     None \<Rightarrow>
                       (Inr 3,
                        log_diagnostic (arg_verbose a) ''Starting wind_down protocol''
                        @ (if arg_json a
                           then [Stdout (OutJson (arg_pretty a) (error_record not_found_msg))]
                           else [Stderr (''Error: '' @ not_found_msg)]))
                   | Some agent \<Rightarrow>
                       (fst (wind_down_pass E a agent),
                        log_diagnostic (arg_verbose a) ''Starting wind_down protocol''
                        @ snd (wind_down_pass E a agent)))),
            L)"
  using assms by (simp add: main_def split: prod.splits option.splits)

lemma wind_down_pass_gathers:
  "set (snd (get_wind_down_data E agent (arg_skip_sanity a) (arg_notes a) (arg_verbose a)))
     \<subseteq> set (snd (wind_down_pass E a agent))"
  by (auto simp: wind_down_pass_def snd_bind_run split: sum.splits)

lemma gather_starts_with_session_state:
  "Called CallSessionState \<in> set (snd (get_wind_down_data E agent skip hnotes verbose))"
  by (auto simp: get_wind_down_data_def snd_bind_run split: sum.splits)

text \<open>
  Claim C9. With \<open>--force\<close>, main leaves the lock file and the guard's globals as they
  were, calls neither acquire_lock nor release_lock, gives the same result and effects
  whatever the lock state and the platform's locking are, and never exits 4. And the run
  proceeds: once the workspace is found (outside \<open>--verify\<close>), the result of main is the
  result of the pass, every effect of get_wind_down_data is an effect of main, and the
  session-state collector has been called.
\<close>

theorem bypass_leaves_guard_alone:
  assumes "arg_force a"
  shows "snd (main E LE a L) = L
         \<and> \<not> list_ex guard_effect (snd (fst (main E LE a L)))
         \<and> fst (main E LE' a L') = fst (main E LE a L)
         \<and> fst (fst (main E LE a L)) \<noteq> Inr 4
         \<and> (\<forall>agent. \<not> arg_verify a \<and> find_agent_root E (arg_dir a) = Some agent \<longrightarrow>
              fst (main E LE a L)
                = (fst (wind_down_pass E a agent),
                   log_diagnostic (arg_verbose a) ''Starting wind_down protocol''
                   @ snd (wind_down_pass E a agent))
              \<and> set (snd (get_wind_down_data E agent (arg_skip_sanity a) (arg_notes a)
                            (arg_verbose a)))
                  \<subseteq> set (snd (fst (main E LE a L)))
              \<and> Called CallSessionState \<in> set (snd (fst (main E LE a L))))"
proof (intro conjI allI impI)
  show "snd (main E LE a L) = L" by (simp add: main_force_eq[OF assms])
  show "fst (main E LE' a L') = fst (main E LE a L)" by (simp add: main_force_eq[OF assms])
  show "fst (fst (main E LE a L)) \<noteq> Inr 4"
    using verify_mode_codes[of E]
    by (auto simp: main_force_eq[OF assms] wind_down_pass_codes split: option.splits)
  have "list_all (\<lambda>e. \<not> guard_effect e) (snd (fst (main E LE a L)))"
    using wind_down_pass_effects verify_mode_effects[of E]
    by (auto simp: main_force_eq[OF assms] log_diagnostic_def list_all_iff split: option.splits)
  then show "\<not> list_ex guard_effect (snd (fst (main E LE a L)))"
    by (auto simp: list_all_iff list_ex_iff)
next
  fix agent
  assume h: "\<not> arg_verify a \<and> find_agent_root E (arg_dir a) = Some agent"
  with assms show eq: "fst (main E LE a L)
                = (fst (wind_down_pass E a agent),
                   log_diagnostic (arg_verbose a) ''Starting wind_down protocol''
                   @ snd (wind_down_pass E a agent))"
    by (simp add: main_forced)
  show sub: "set (snd (get_wind_down_data E agent (arg_skip_sanity a) (arg_notes a)
                            (arg_verbose a)))
                  \<subseteq> set (snd (fst (main E LE a L)))"
    using wind_down_pass_gathers[of E agent a] by (auto simp: eq)
  show "Called CallSessionState \<in> set (snd (fst (main E LE a L)))"
    using sub gather_starts_with_session_state by blast
qed



lemma no_guard_in_log [simp]:
  "\<not> list_ex guard_effect (log_diagnostic verbose msg)"
  by (simp add: log_diagnostic_def)


lemma found_example: "find_agent_root env0 (arg_dir args0) = Some agent0"
  by code_simp

lemma refused_example: "acquire_lock lock_env_held agent0 lock0 = (False, lock_refused)"
  by (auto simp: acquire_lock_def lock_env_held_def lock_env0_def lock0_def lock_refused_def
        acquire_failed_def Let_def agent0_def)






theorem guard_blocked_is_hard_stop_witness:
  "\<not> arg_verify args0 \<and> find_agent_root env0 (arg_dir args0) = Some agent0
   \<and> \<not> arg_force args0 \<and> acquire_lock lock_env_held agent0 lock0 = (False, lock_refused)
   \<and> main env0 lock_env_held args0 lock0 =
        ((Inr 4, [Called CallAcquireLock, Stdout (OutJson False (error_record blocked_msg))]),
         lock_refused)
   \<and> \<not> list_ex work_effect (snd (fst (main env0 lock_env_held args0 lock0)))"
proof -
  have nv: "\<not> arg_verify args0" and nf: "\<not> arg_force args0"
    and j: "arg_json args0" and q: "\<not> arg_verbose args0"
    by (simp_all add: args0_def)
  from guard_blocked_is_hard_stop [OF nv found_example nf refused_example]
    nv nf found_example refused_example j q
  show ?thesis by (simp add: log_diagnostic_def)
qed

theorem bypass_leaves_guard_alone_witness:
  "arg_force args_force \<and> \<not> arg_verify args_force
   \<and> find_agent_root env0 (arg_dir args_force) = Some agent0
   \<and> snd (main env0 lock_env_held args_force lock_taken) = lock_taken
   \<and> \<not> list_ex guard_effect (snd (fst (main env0 lock_env_held args_force lock_taken)))
   \<and> fst (main env0 lock_env0 args_force lock0) = fst (main env0 lock_env_held args_force lock_taken)
   \<and> fst (main env0 lock_env_held args_force lock_taken) = (Inr 0, force_effects)
   \<and> wind_down_pass env0 args_force agent0 = (Inr 0, force_effects)
   \<and> Called CallSessionState \<in> set force_effects"
proof -
  have f: "arg_force args_force" and nv: "\<not> arg_verify args_force"
    and q: "\<not> arg_verbose args_force"
    by (simp_all add: args_force_def args0_def)
  have found: "find_agent_root env0 (arg_dir args_force) = Some agent0" by code_simp
  have pass: "wind_down_pass env0 args_force agent0 = (Inr 0, force_effects)" by code_simp
  note t = bypass_leaves_guard_alone [OF f, where E = env0 and LE = lock_env_held
         and L = lock_taken and LE' = lock_env0 and L' = lock0]
  from t nv found have
    "fst (main env0 lock_env_held args_force lock_taken)
       = (fst (wind_down_pass env0 args_force agent0),
          log_diagnostic (arg_verbose args_force) ''Starting wind_down protocol''
          @ snd (wind_down_pass env0 args_force agent0))"
    and m: "Called CallSessionState \<in> set (snd (fst (main env0 lock_env_held args_force lock_taken)))"
    by blast+
  then have r: "fst (main env0 lock_env_held args_force lock_taken) = (Inr 0, force_effects)"
    by (simp add: pass q log_diagnostic_def)
  from t f nv found r pass m show ?thesis by simp
qed

end
